theory Spec2Isabelle
  imports Complex_Main "HOL-Library.AList"
begin

section \<open>Python values, dictionaries, exceptions and diagnostics\<close>

text \<open>
  The module \<^verbatim>\<open>detect_secrets/plugins/common/initialize.py\<close> never inspects a parameter
  value: values are copied, stored and handed to constructors. They are therefore a type
  parameter \<open>'v\<close>, with HOL equality standing for Python's \<^verbatim>\<open>==\<close>. A plugin name is the
  value stored under the key \<^verbatim>\<open>'name'\<close> of a baseline record, so plugin names are of type
  \<open>'v\<close> as well. The concrete examples below use \<open>pyval\<close>.
\<close>

datatype pyval = Str string | Num rat | Bool bool

text \<open>
  A Python \<^verbatim>\<open>dict\<close> keeps its keys in insertion order and holds each key once. It is an
  association list whose keys are distinct (\<open>is_dict\<close>): \<^verbatim>\<open>d[k]\<close> is \<open>map_of d k\<close>
  (\<open>None\<close> where Python raises \<^verbatim>\<open>KeyError\<close>), \<^verbatim>\<open>d[k] = v\<close> is \<open>AList.update k v d\<close>
  (the value is replaced in place, or the pair is appended), and \<^verbatim>\<open>d.pop(k)\<close> on a
  present key is \<open>AList.delete k d\<close>.
\<close>

type_synonym ('k, 'v) dict = "('k \<times> 'v) list"

definition is_dict :: "('k, 'v) dict \<Rightarrow> bool" where
  "is_dict d = distinct (map fst d)"

definition keys :: "('k, 'v) dict \<Rightarrow> 'k set" where
  "keys d = fst ` set d"

text \<open>\<^verbatim>\<open>d.get(k, default)\<close>\<close>

definition dict_get :: "('k, 'v) dict \<Rightarrow> 'k \<Rightarrow> 'v \<Rightarrow> 'v" where
  "dict_get d k dflt = (case map_of d k of None \<Rightarrow> dflt | Some v \<Rightarrow> v)"

type_synonym 'v params = "(string, 'v) dict"

datatype error = KeyError | TypeError | OtherError

text \<open>
  The diagnostics the module emits: the yellow message printed to standard error when a
  plugin is not in the catalog, the two \<^verbatim>\<open>log.warning\<close> messages and the \<^verbatim>\<open>log.debug\<close>
  message (with the flag text it formats and the plugin name).
\<close>

datatype 'v diag =
    Stderr_no_such_plugin 'v
  | Warning_unable_to_initialize
  | Warning_not_in_all_plugins 'v
  | Debug_not_configured string 'v

section \<open>The collaborators outside the module\<close>

text \<open>
  A plugin class is what its constructor does with the keyword arguments
  \<^verbatim>\<open>exclude_lines_regex\<close>, \<^verbatim>\<open>automaton\<close>, \<^verbatim>\<open>should_verify\<close> and the remaining keyword
  parameters: it returns an instance or raises. \<^verbatim>\<open>import_plugins(plugin_filenames)\<close> of
  \<^verbatim>\<open>util.py\<close> is a parameter of the model: given the plugin file names (\<open>None\<close> when the
  argument is left at its default) it yields the catalog, a mapping from class names to
  classes.
\<close>

type_synonym ('v, 'a, 'i) klass =
  "string option \<Rightarrow> 'a option \<Rightarrow> bool \<Rightarrow> 'v params \<Rightarrow> error + 'i"

type_synonym ('v, 'a, 'i) catalog = "'v option \<Rightarrow> 'v \<rightharpoonup> ('v, 'a, 'i) klass"

text \<open>
  The inner dictionaries of \<^verbatim>\<open>args.plugins\<close> are objects shared with the caller: the outer
  dictionary maps a plugin name to a reference, and the store maps a reference to the
  parameter dictionary it holds at the moment.
\<close>

type_synonym ref = nat

type_synonym 'v heap = "ref \<Rightarrow> 'v params"

definition deref :: "'v heap \<Rightarrow> ('k, ref) dict \<Rightarrow> ('k, 'v params) dict" where
  "deref h d = map (\<lambda>(k, r). (k, h r)) d"

text \<open>
  The parsed arguments. \<open>disabled_plugins\<close> is what
  \<^verbatim>\<open>PluginOptions.get_disabled_plugins(args)\<close> of \<^verbatim>\<open>usage.py\<close> returns for them.
\<close>

record 'v args =
  plugins :: "('v, ref) dict"
  is_using_default_value :: "(string, bool) dict"
  use_all_plugins :: bool
  exclude_lines :: "string option"
  no_verify :: bool
  plugin_filenames :: "'v option"
  disabled_plugins :: "'v list"

section \<open>The instantiator\<close>

text \<open>
  \<^verbatim>\<open>from_plugin_classname\<close>. \<open>kwargs\<close> is what \<^verbatim>\<open>**kwargs\<close> receives. The catalog lookup is
  guarded by \<^verbatim>\<open>except KeyError\<close>: warning on standard error, result \<^verbatim>\<open>None\<close>. The
  constructor call is guarded by \<^verbatim>\<open>except TypeError\<close>: \<^verbatim>\<open>log.warning\<close>, then \<^verbatim>\<open>raise\<close>. A
  key of \<open>kwargs\<close> that repeats one of the three keywords written in the call makes the
  call itself a \<^verbatim>\<open>TypeError\<close>, inside the same \<^verbatim>\<open>try\<close>. Any other exception of the
  constructor passes through.
\<close>

definition from_plugin_classname ::
  "('v, 'a, 'i) catalog \<Rightarrow> 'v \<Rightarrow> string option \<Rightarrow> 'a option \<Rightarrow> bool \<Rightarrow> 'v option \<Rightarrow>
   'v params \<Rightarrow> 'v diag list \<times> (error + 'i option)" where
  "from_plugin_classname import_plugins plugin_classname exclude_lines_regex automaton
       should_verify_secrets filenames kwargs =
    (case import_plugins filenames plugin_classname of
       None \<Rightarrow> ([Stderr_no_such_plugin plugin_classname], Inr None)
     | Some klass \<Rightarrow>
        (case (if list_ex (\<lambda>k. k \<in> keys kwargs)
                    [''exclude_lines_regex'', ''automaton'', ''should_verify'']
               then Inl TypeError
               else klass exclude_lines_regex automaton should_verify_secrets kwargs) of
           Inl TypeError \<Rightarrow> ([Warning_unable_to_initialize], Inl TypeError)
         | Inl e \<Rightarrow> ([], Inl e)
         | Inr inst \<Rightarrow> ([], Inr (Some inst))))"

text \<open>
  \<^verbatim>\<open>from_parser_builder\<close>. Iterating the dictionary and indexing it by each key visits its
  entries in order. The call passes the plugin name positionally, four keywords and
  \<^verbatim>\<open>**plugins_dict[plugin_name]\<close>: a parameter named like one of the five is a
  \<^verbatim>\<open>TypeError\<close> of the call, raised before \<^verbatim>\<open>from_plugin_classname\<close> runs. An exception
  ends the loop; otherwise every result, \<^verbatim>\<open>None\<close> included, is appended.
\<close>

definition parser_builder_keywords :: "string list" where
  "parser_builder_keywords =
     [''plugin_classname'', ''exclude_lines_regex'', ''automaton'',
      ''should_verify_secrets'', ''plugin_filenames'']"

fun from_parser_builder ::
  "('v, 'a, 'i) catalog \<Rightarrow> ('v, 'v params) dict \<Rightarrow> string option \<Rightarrow> 'a option \<Rightarrow> bool \<Rightarrow>
   'v option \<Rightarrow> 'v diag list \<times> (error + 'i option list)" where
  "from_parser_builder import_plugins [] exclude_lines_regex automaton should_verify_secrets
       filenames = ([], Inr [])"
| "from_parser_builder import_plugins ((plugin_name, plugin_params) # rest)
       exclude_lines_regex automaton should_verify_secrets filenames =
    (if list_ex (\<lambda>k. k \<in> keys plugin_params) parser_builder_keywords
     then ([], Inl TypeError)
     else
       (case from_plugin_classname import_plugins plugin_name exclude_lines_regex automaton
               should_verify_secrets filenames plugin_params of
          (msgs, Inl e) \<Rightarrow> (msgs, Inl e)
        | (msgs, Inr slot) \<Rightarrow>
           (case from_parser_builder import_plugins rest exclude_lines_regex automaton
                   should_verify_secrets filenames of
              (msgs', Inl e) \<Rightarrow> (msgs @ msgs', Inl e)
            | (msgs', Inr output) \<Rightarrow> (msgs @ msgs', Inr (slot # output)))))"

section \<open>The merger\<close>

text \<open>
  \<^verbatim>\<open>_get_prioritized_parameters\<close>: the triples the generator yields, in order. Neither
  caller changes the dictionaries it iterates while the generator runs, so the lazy
  generator and the list of its results are the same.
\<close>

definition get_prioritized_parameters ::
  "('n, 'v params) dict \<Rightarrow> (string, bool) dict \<Rightarrow> bool \<Rightarrow> ('n \<times> string \<times> 'v) list" where
  "get_prioritized_parameters plugins_dict is_using_default_value_map prefer_default =
     [(plugin_name, param_name, param_value).
        (plugin_name, plugin_params) \<leftarrow> plugins_dict,
        (param_name, param_value) \<leftarrow> plugin_params,
        dict_get is_using_default_value_map param_name False = prefer_default]"

text \<open>\<^verbatim>\<open>_remove_key\<close>: copy, then \<^verbatim>\<open>pop\<close>, which raises on a missing key.\<close>

definition remove_key :: "('k, 'v) dict \<Rightarrow> 'k \<Rightarrow> error + ('k, 'v) dict" where
  "remove_key d key =
     (case map_of d key of None \<Rightarrow> Inl KeyError | Some _ \<Rightarrow> Inr (AList.delete key d))"

text \<open>
  The comprehension building \<^verbatim>\<open>baseline_plugins_dict\<close>, over the \<^verbatim>\<open>vars(plugin)\<close> of the
  baseline plugins, with the dictionary built so far as accumulator. A record without
  \<^verbatim>\<open>'name'\<close> raises \<^verbatim>\<open>KeyError\<close>; a repeated name replaces the earlier parameters.
\<close>

fun baseline_plugins_dict_from ::
  "('v, 'v params) dict \<Rightarrow> 'v params list \<Rightarrow> error + ('v, 'v params) dict" where
  "baseline_plugins_dict_from acc [] = Inr acc"
| "baseline_plugins_dict_from acc (plugin # rest) =
    (case map_of plugin ''name'' of
       None \<Rightarrow> Inl KeyError
     | Some name \<Rightarrow>
        (case remove_key plugin ''name'' of
           Inl e \<Rightarrow> Inl e
         | Inr plugin_params \<Rightarrow>
            baseline_plugins_dict_from (AList.update name plugin_params acc) rest))"

definition baseline_plugins_dict :: "'v params list \<Rightarrow> error + ('v, 'v params) dict" where
  "baseline_plugins_dict baseline_plugins = baseline_plugins_dict_from [] baseline_plugins"

text \<open>
  The loop of the branch \<^verbatim>\<open>if args.use_all_plugins\<close>: \<^verbatim>\<open>plugins_dict[plugin_name]\<close> is looked
  up in the copy of the outer dictionary, and the assignment changes the inner dictionary
  that the reference names, in the store. A missing plugin is the caught \<^verbatim>\<open>KeyError\<close>.
\<close>

fun assign_baseline_params ::
  "('v, ref) dict \<Rightarrow> ('v \<times> string \<times> 'v) list \<Rightarrow> 'v heap \<Rightarrow> 'v heap \<times> 'v diag list" where
  "assign_baseline_params plugins_dict [] h = (h, [])"
| "assign_baseline_params plugins_dict ((plugin_name, param_name, param_value) # rest) h =
    (case map_of plugins_dict plugin_name of
       None \<Rightarrow>
        (case assign_baseline_params plugins_dict rest h of
           (h', msgs) \<Rightarrow> (h', Warning_not_in_all_plugins plugin_name # msgs))
     | Some r \<Rightarrow>
        assign_baseline_params plugins_dict rest
          (h(r := AList.update param_name param_value (h r))))"

text \<open>
  The loop of the other branch. The inner dictionaries of \<open>plugins_dict\<close> are the copies
  made by \<^verbatim>\<open>_remove_key\<close>, one per name and known to nobody else, so they are held by value.
  The debug message formats \<^verbatim>\<open>'--' + param_name.replace('_', '-')\<close>.
\<close>

definition flag_text :: "string \<Rightarrow> string" where
  "flag_text param_name =
     ''--'' @ map (\<lambda>c. if c = CHR ''_'' then CHR ''-'' else c) param_name"

fun assign_input_params ::
  "('v, 'v params) dict \<Rightarrow> ('v \<times> string \<times> 'v) list \<Rightarrow>
   ('v, 'v params) dict \<times> 'v diag list" where
  "assign_input_params plugins_dict [] = (plugins_dict, [])"
| "assign_input_params plugins_dict ((plugin_name, param_name, param_value) # rest) =
    (case map_of plugins_dict plugin_name of
       None \<Rightarrow>
        (case assign_input_params plugins_dict rest of
           (d, msgs) \<Rightarrow> (d, Debug_not_configured (flag_text param_name) plugin_name # msgs))
     | Some plugin_params \<Rightarrow>
        assign_input_params
          (AList.update plugin_name (AList.update param_name param_value plugin_params)
             plugins_dict) rest)"

text \<open>
  \<^verbatim>\<open>merge_plugins_from_baseline\<close> up to its two \<^verbatim>\<open>return\<close> statements: the store after the
  assignments, the diagnostics, and the \<open>plugins_dict\<close> handed to \<^verbatim>\<open>from_parser_builder\<close>.
  \<^verbatim>\<open>dict(args.plugins)\<close> copies the outer dictionary only: the copy holds the same
  references.
\<close>

definition resolve_plugins ::
  "'v params list \<Rightarrow> 'v args \<Rightarrow> 'v heap \<Rightarrow>
   error + ('v heap \<times> 'v diag list \<times> ('v, 'v params) dict)" where
  "resolve_plugins baseline_plugins args h =
    (case baseline_plugins_dict baseline_plugins of
       Inl e \<Rightarrow> Inl e
     | Inr bpd \<Rightarrow>
        if use_all_plugins args then
          (let plugins_dict = plugins args in
           case assign_baseline_params plugins_dict
                  (get_prioritized_parameters bpd (is_using_default_value args) True) h of
             (h', msgs) \<Rightarrow> Inr (h', msgs, deref h' plugins_dict))
        else
          (let plugins_dict = filter (\<lambda>(plugin_name, plugin_params).
                                 plugin_name \<notin> set (disabled_plugins args)) bpd;
               input_plugins_dict = deref h (plugins args) in
           case assign_input_params plugins_dict
                  (get_prioritized_parameters input_plugins_dict
                     (is_using_default_value args) False) of
             (plugins_dict', msgs) \<Rightarrow> Inr (h, msgs, plugins_dict')))"

definition merge_plugins_from_baseline ::
  "('v, 'a, 'i) catalog \<Rightarrow> 'v params list \<Rightarrow> 'v args \<Rightarrow> 'a option \<Rightarrow> 'v heap \<Rightarrow>
   'v heap \<times> 'v diag list \<times> (error + 'i option list)" where
  "merge_plugins_from_baseline import_plugins baseline_plugins args automaton h =
    (case resolve_plugins baseline_plugins args h of
       Inl e \<Rightarrow> (h, [], Inl e)
     | Inr (h', msgs, plugins_dict) \<Rightarrow>
        (case from_parser_builder import_plugins plugins_dict (exclude_lines args) automaton
                (\<not> no_verify args) (plugin_filenames args) of
           (msgs', result) \<Rightarrow> (h', msgs @ msgs', result)))"

section \<open>Lookup by secret type\<close>

text \<open>
  The loop of \<^verbatim>\<open>from_secret_type\<close> up to the call: the first settings record named
  \<open>classname\<close>, copied and without its \<^verbatim>\<open>'name'\<close>. \<^verbatim>\<open>plugin['name']\<close> raises on a record
  without that key; no match falls off the end of the function.
\<close>

fun find_plugin_init_vars :: "'v \<Rightarrow> 'v params list \<Rightarrow> error + 'v params option" where
  "find_plugin_init_vars classname [] = Inr None"
| "find_plugin_init_vars classname (plugin # rest) =
    (case map_of plugin ''name'' of
       None \<Rightarrow> Inl KeyError
     | Some name \<Rightarrow>
        if name = classname then Inr (Some (AList.delete ''name'' plugin))
        else find_plugin_init_vars classname rest)"

text \<open>
  \<^verbatim>\<open>from_secret_type\<close>. \<open>mapping\<close> is what
  \<^verbatim>\<open>get_mapping_from_secret_type_to_class_name(plugin_filenames=plugin_filenames)\<close> of
  \<^verbatim>\<open>util.py\<close> returns. The call names the class positionally and three keywords, so a
  setting named like one of the four is a \<^verbatim>\<open>TypeError\<close>; \<^verbatim>\<open>plugin_filenames\<close> is not passed
  on, so a setting of that name becomes the argument and otherwise it is \<^verbatim>\<open>None\<close>.
\<close>

definition from_secret_type ::
  "('v, 'a, 'i) catalog \<Rightarrow> ('s \<rightharpoonup> 'v) \<Rightarrow> 's \<Rightarrow> 'v params list \<Rightarrow>
   'v diag list \<times> (error + 'i option)" where
  "from_secret_type import_plugins mapping secret_type settings =
    (case mapping secret_type of
       None \<Rightarrow> ([], Inr None)
     | Some classname \<Rightarrow>
        (case find_plugin_init_vars classname settings of
           Inl e \<Rightarrow> ([], Inl e)
         | Inr None \<Rightarrow> ([], Inr None)
         | Inr (Some plugin_init_vars) \<Rightarrow>
            if list_ex (\<lambda>k. k \<in> keys plugin_init_vars)
                 [''plugin_classname'', ''exclude_lines_regex'', ''automaton'',
                  ''should_verify_secrets'']
            then ([], Inl TypeError)
            else from_plugin_classname import_plugins classname None None False
                   (map_of plugin_init_vars ''plugin_filenames'')
                   (AList.delete ''plugin_filenames'' plugin_init_vars)))"

section \<open>Looking a parameter up in a configuration\<close>

text \<open>
  \<^verbatim>\<open>plugins_dict[plugin_name][param_name]\<close> as an option: \<open>None\<close> when the plugin or the
  parameter is absent.
\<close>

definition param_of :: "('n, 'v params) dict \<Rightarrow> 'n \<Rightarrow> string \<Rightarrow> 'v option" where
  "param_of d n p = (case map_of d n of None \<Rightarrow> None | Some ps \<Rightarrow> map_of ps p)"

section \<open>Example inputs\<close>

text \<open>
  A plugin class that accepts the listed keyword parameters and raises \<^verbatim>\<open>TypeError\<close> on any
  other, as a Python constructor without \<^verbatim>\<open>**kwargs\<close> does; its instance records
  \<^verbatim>\<open>should_verify\<close> and the parameters. The example catalog knows three plugins, whatever the
  plugin file names.
\<close>

definition example_klass :: "string list \<Rightarrow> (pyval, unit, bool \<times> pyval params) klass" where
  "example_klass accepted exclude_lines_regex automaton should_verify kwargs =
     (if list_all (\<lambda>k. k \<in> set accepted) (map fst kwargs) then Inr (should_verify, kwargs)
      else Inl TypeError)"

definition example_catalog :: "(pyval, unit, bool \<times> pyval params) catalog" where
  "example_catalog filenames =
     map_of [(Str ''Base64HighEntropyString'', example_klass [''base64_limit'']),
             (Str ''HexHighEntropyString'', example_klass [''hex_limit'']),
             (Str ''KeywordDetector'', example_klass [''keyword_exclude''])]"

text \<open>
  A resolved configuration naming a plugin that the example catalog does not know, and one
  that it knows.
\<close>

definition example_resolved :: "(pyval, pyval params) dict" where
  "example_resolved =
     [(Str ''RemovedPlugin'', [(''limit'', Num 2)]),
      (Str ''HexHighEntropyString'', [(''hex_limit'', Num 3)])]"

text \<open>
  The example of the specification: the command line holds \<^verbatim>\<open>base64_limit = 4.5\<close> for
  \<^verbatim>\<open>Base64HighEntropyString\<close> (and a second plugin with its default), the baseline holds
  \<^verbatim>\<open>base64_limit = 3.0\<close>. The two inner dictionaries of \<^verbatim>\<open>args.plugins\<close> are the objects at
  references 0 and 1 of the store.
\<close>

definition example_args :: "bool \<Rightarrow> bool \<Rightarrow> pyval args" where
  "example_args is_default all_plugins =
     \<lparr> plugins = [(Str ''Base64HighEntropyString'', 0), (Str ''HexHighEntropyString'', 1)],
       is_using_default_value = [(''base64_limit'', is_default), (''hex_limit'', True)],
       use_all_plugins = all_plugins, exclude_lines = None, no_verify = False,
       plugin_filenames = None, disabled_plugins = [] \<rparr>"

definition example_heap :: "pyval heap" where
  "example_heap = (\<lambda>r. [])(0 := [(''base64_limit'', Num 4.5)], 1 := [(''hex_limit'', Num 3)])"

definition example_baseline :: "pyval params list" where
  "example_baseline =
     [[(''name'', Str ''Base64HighEntropyString''), (''base64_limit'', Num 3.0)]]"

text \<open>A baseline with two plugins, and arguments that disable the first of them.\<close>

definition example_baseline_two :: "pyval params list" where
  "example_baseline_two =
     [[(''name'', Str ''Base64HighEntropyString''), (''base64_limit'', Num 3.0)],
      [(''name'', Str ''HexHighEntropyString''), (''hex_limit'', Num 2)]]"

definition example_args_disabled :: "pyval args" where
  "example_args_disabled =
     (example_args False False) \<lparr> disabled_plugins := [Str ''Base64HighEntropyString''] \<rparr>"

text \<open>The arguments of the example with no flag recorded for \<^verbatim>\<open>base64_limit\<close>.\<close>

definition example_args_no_flag :: "bool \<Rightarrow> pyval args" where
  "example_args_no_flag all_plugins =
     (example_args True all_plugins) \<lparr> is_using_default_value := [(''hex_limit'', True)] \<rparr>"

text \<open>
  A baseline whose first record names a plugin that the example catalog does not know.
\<close>

definition example_baseline_unknown :: "pyval params list" where
  "example_baseline_unknown =
     [[(''name'', Str ''RemovedPlugin''), (''limit'', Num 2)],
      [(''name'', Str ''HexHighEntropyString''), (''hex_limit'', Num 3)]]"

section \<open>Facts about dictionaries and the two loops\<close>

subsection \<open>Dictionaries\<close>


lemma keys_map_of: "k \<in> keys d \<longleftrightarrow> map_of d k \<noteq> None"
  by (simp add: keys_def map_of_eq_None_iff)

lemma is_dict_map_of: "is_dict d \<Longrightarrow> (k, v) \<in> set d \<longleftrightarrow> map_of d k = Some v"
  by (auto simp: is_dict_def dest: map_of_SomeD)

lemma is_dict_update: "is_dict d \<Longrightarrow> is_dict (AList.update k v d)"
  by (simp add: is_dict_def distinct_update)

lemma is_dict_delete: "is_dict d \<Longrightarrow> is_dict (AList.delete k d)"
  by (simp add: is_dict_def distinct_delete)

lemma keys_delete: "keys (AList.delete k d) = keys d - {k}"
  by (auto simp: keys_def AList.delete_eq)

lemma map_of_filter_keys:
  "map_of (filter (\<lambda>(k, v). P k) d) k = (if P k then map_of d k else None)"
  by (induction d) auto

lemma map_of_deref: "map_of (deref h d) k = map_option h (map_of d k)"
  by (induction d) (auto simp: deref_def)

lemma map_fst_deref: "map fst (deref h d) = map fst d"
  by (induction d) (auto simp: deref_def)

subsection \<open>The baseline dictionary\<close>

lemma bpd_from_is_dict:
  "baseline_plugins_dict_from acc bl = Inr d \<Longrightarrow> is_dict acc \<Longrightarrow> is_dict d"
  by (induction bl arbitrary: acc)
     (auto simp: remove_key_def is_dict_update split: option.splits)

lemma set_update_cases:
  "x \<in> set (AList.update k v d) \<Longrightarrow> x = (k, v) \<or> x \<in> set d"
  by (induction d) (auto split: if_splits)

lemma bpd_from_values:
  "baseline_plugins_dict_from acc bl = Inr d \<Longrightarrow> (n, ps) \<in> set d \<Longrightarrow>
   (n, ps) \<in> set acc \<or> (\<exists>plugin \<in> set bl. ps = AList.delete ''name'' plugin)"
proof (induction bl arbitrary: acc)
  case Nil
  then show ?case by simp
next
  case (Cons plugin rest)
  from Cons.prems(1) obtain name where nm: "map_of plugin ''name'' = Some name"
    and rec: "baseline_plugins_dict_from
                (AList.update name (AList.delete ''name'' plugin) acc) rest = Inr d"
    by (auto simp: remove_key_def split: option.splits)
  from Cons.IH [OF rec Cons.prems(2)]
  show ?case
    by (auto dest: set_update_cases)
qed

lemma bpd_total:
  "(\<exists>d. baseline_plugins_dict_from acc bl = Inr d) \<longleftrightarrow> (\<forall>plugin \<in> set bl. ''name'' \<in> keys plugin)"
  by (induction bl arbitrary: acc)
     (auto simp: remove_key_def keys_map_of split: option.splits)

subsection \<open>The prioritized triples\<close>

lemma gpp_set:
  "(n, p, v) \<in> set (get_prioritized_parameters d flags b) \<longleftrightarrow>
   (\<exists>ps. (n, ps) \<in> set d \<and> (p, v) \<in> set ps \<and> dict_get flags p False = b)"
  by (auto simp: get_prioritized_parameters_def)

subsection \<open>The assignments into the command-line dictionaries\<close>

lemma assign_baseline_frame:
  "\<forall>n v. (n, p, v) \<in> set ts \<longrightarrow> map_of pd n \<noteq> Some r \<Longrightarrow>
   map_of (fst (assign_baseline_params pd ts h) r) p = map_of (h r) p"
proof (induction ts arbitrary: h)
  case Nil
  then show ?case by simp
next
  case (Cons t ts)
  obtain n' p' v' where t: "t = (n', p', v')" by (cases t)
  show ?case
  proof (cases "map_of pd n'")
    case None
    with Cons t show ?thesis by (simp add: case_prod_beta)
  next
    case (Some r')
    let ?h1 = "h(r' := AList.update p' v' (h r'))"
    have "map_of (fst (assign_baseline_params pd ts ?h1) r) p = map_of (?h1 r) p"
      using Cons.prems by (intro Cons.IH) auto
    moreover have "map_of (?h1 r) p = map_of (h r) p"
      using Cons.prems t Some by (auto simp: update_conv')
    ultimately show ?thesis using t Some by simp
  qed
qed

lemma assign_baseline_write:
  assumes "\<forall>n v'. (n, p, v') \<in> set ts \<longrightarrow> map_of pd n = Some r \<longrightarrow> v' = v"
    and "map_of (h r) p = Some v \<or> (\<exists>n. (n, p, v) \<in> set ts \<and> map_of pd n = Some r)"
  shows "map_of (fst (assign_baseline_params pd ts h) r) p = Some v"
  using assms
proof (induction ts arbitrary: h)
  case Nil
  then show ?case by simp
next
  case (Cons t ts)
  obtain n' p' v' where t: "t = (n', p', v')" by (cases t)
  have all: "\<forall>n v'. (n, p, v') \<in> set ts \<longrightarrow> map_of pd n = Some r \<longrightarrow> v' = v"
    using Cons.prems(1) by simp
  show ?case
  proof (cases "map_of pd n'")
    case None
    have "map_of (h r) p = Some v \<or> (\<exists>n. (n, p, v) \<in> set ts \<and> map_of pd n = Some r)"
      using Cons.prems(2) t None by auto
    from Cons.IH [of h, OF all this] show ?thesis using t None by (simp add: case_prod_beta)
  next
    case (Some r')
    let ?h1 = "h(r' := AList.update p' v' (h r'))"
    have pre: "map_of (?h1 r) p = Some v \<or> (\<exists>n. (n, p, v) \<in> set ts \<and> map_of pd n = Some r)"
    proof (cases "r' = r \<and> p' = p")
      case True
      then have "v' = v" using Cons.prems(1) t Some by simp
      with True show ?thesis by (simp add: update_conv')
    next
      case False
      then have same: "map_of (?h1 r) p = map_of (h r) p" by (auto simp: update_conv')
      from Cons.prems(2) show ?thesis
      proof
        assume "map_of (h r) p = Some v"
        with same show ?thesis by simp
      next
        assume "\<exists>n. (n, p, v) \<in> set (t # ts) \<and> map_of pd n = Some r"
        then obtain n where n: "(n, p, v) \<in> set (t # ts)" "map_of pd n = Some r" by blast
        with False t Some have "(n, p, v) \<in> set ts" by auto
        with n show ?thesis by blast
      qed
    qed
    have "map_of (fst (assign_baseline_params pd ts ?h1) r) p = Some v"
    proof (rule Cons.IH)
      show "\<forall>n v'. (n, p, v') \<in> set ts \<longrightarrow> map_of pd n = Some r \<longrightarrow> v' = v" by (rule all)
      show "map_of (?h1 r) p = Some v \<or> (\<exists>n. (n, p, v) \<in> set ts \<and> map_of pd n = Some r)"
        by (rule pre)
    qed
    then show ?thesis using t Some by simp
  qed
qed

lemma assign_baseline_msgs:
  "set (snd (assign_baseline_params pd ts h)) =
   {Warning_not_in_all_plugins n | n p v. (n, p, v) \<in> set ts \<and> map_of pd n = None}"
proof (induction ts arbitrary: h)
  case Nil
  then show ?case by simp
next
  case (Cons t ts)
  obtain n' p' v' where t: "t = (n', p', v')" by (cases t)
  show ?case
  proof (cases "map_of pd n'")
    case None
    with Cons [of h] t show ?thesis by (auto simp: case_prod_beta)
  next
    case (Some r')
    have "set (snd (assign_baseline_params pd ts (h(r' := AList.update p' v' (h r'))))) =
      {Warning_not_in_all_plugins n | n p v. (n, p, v) \<in> set ts \<and> map_of pd n = None}"
      by (rule Cons.IH)
    moreover have "assign_baseline_params pd (t # ts) h =
      assign_baseline_params pd ts (h(r' := AList.update p' v' (h r')))"
      using t Some by simp
    ultimately show ?thesis using t Some by (auto simp del: fun_upd_apply)
  qed
qed

subsection \<open>The assignments into the baseline dictionaries\<close>

lemma assign_input_keys:
  "map fst (fst (assign_input_params pd ts)) = map fst pd"
proof (induction ts arbitrary: pd)
  case Nil
  then show ?case by simp
next
  case (Cons t ts)
  obtain n' p' v' where t: "t = (n', p', v')" by (cases t)
  show ?case
  proof (cases "map_of pd n'")
    case None
    with Cons t show ?thesis by (simp add: case_prod_beta)
  next
    case (Some ps')
    then have "n' \<in> set (map fst pd)"
      by (metis map_of_eq_None_iff option.distinct(1) set_map)
    with Cons [of "AList.update n' (AList.update p' v' ps') pd"] t Some
    show ?thesis by (simp add: update_keys)
  qed
qed

lemma assign_input_frame:
  "\<forall>v. (n, p, v) \<notin> set ts \<Longrightarrow>
   param_of (fst (assign_input_params pd ts)) n p = param_of pd n p"
proof (induction ts arbitrary: pd)
  case Nil
  then show ?case by simp
next
  case (Cons t ts)
  obtain n' p' v' where t: "t = (n', p', v')" by (cases t)
  show ?case
  proof (cases "map_of pd n'")
    case None
    with Cons t show ?thesis by (simp add: case_prod_beta)
  next
    case (Some ps')
    let ?pd1 = "AList.update n' (AList.update p' v' ps') pd"
    have "param_of (fst (assign_input_params ?pd1 ts)) n p = param_of ?pd1 n p"
      using Cons.prems by (intro Cons.IH) auto
    moreover have "param_of ?pd1 n p = param_of pd n p"
      using Cons.prems t Some by (auto simp: param_of_def update_conv')
    ultimately show ?thesis using t Some by simp
  qed
qed

lemma assign_input_write:
  assumes "\<forall>v'. (n, p, v') \<in> set ts \<longrightarrow> v' = v" and "map_of pd n \<noteq> None"
    and "param_of pd n p = Some v \<or> (n, p, v) \<in> set ts"
  shows "param_of (fst (assign_input_params pd ts)) n p = Some v"
  using assms
proof (induction ts arbitrary: pd)
  case Nil
  then show ?case by simp
next
  case (Cons t ts)
  obtain n' p' v' where t: "t = (n', p', v')" by (cases t)
  have all: "\<forall>v'. (n, p, v') \<in> set ts \<longrightarrow> v' = v" using Cons.prems(1) by simp
  show ?case
  proof (cases "map_of pd n'")
    case None
    have "param_of pd n p = Some v \<or> (n, p, v) \<in> set ts"
      using Cons.prems(2,3) t None by auto
    from Cons.IH [OF all Cons.prems(2) this] show ?thesis
      using t None by (simp add: case_prod_beta)
  next
    case (Some ps')
    let ?pd1 = "AList.update n' (AList.update p' v' ps') pd"
    have dom: "map_of ?pd1 n \<noteq> None" using Cons.prems(2) by (simp add: update_conv')
    have "param_of ?pd1 n p = Some v \<or> (n, p, v) \<in> set ts"
    proof (cases "n' = n \<and> p' = p")
      case True
      then have "v' = v" using Cons.prems(1) t by simp
      with True show ?thesis by (simp add: param_of_def update_conv')
    next
      case False
      then have same: "param_of ?pd1 n p = param_of pd n p"
        using Some by (auto simp: param_of_def update_conv')
      from Cons.prems(3) show ?thesis
      proof
        assume "param_of pd n p = Some v"
        with same show ?thesis by simp
      next
        assume "(n, p, v) \<in> set (t # ts)"
        with False t show ?thesis by auto
      qed
    qed
    from Cons.IH [OF all dom this] show ?thesis using t Some by simp
  qed
qed

subsection \<open>The instantiation loop\<close>

lemma from_parser_builder_map:
  "snd (from_parser_builder import_plugins plugins_dict e a s f) = Inr out \<longleftrightarrow>
   list_all (\<lambda>(n, ps). \<not> list_ex (\<lambda>k. k \<in> keys ps) parser_builder_keywords) plugins_dict \<and>
   map (\<lambda>(n, ps). snd (from_plugin_classname import_plugins n e a s f ps)) plugins_dict
     = map Inr out"
proof (induction plugins_dict arbitrary: out)
  case Nil
  then show ?case by auto
next
  case (Cons entry rest)
  obtain n ps where entry: "entry = (n, ps)" by (cases entry)
  show ?case
  proof (cases "list_ex (\<lambda>k. k \<in> keys ps) parser_builder_keywords")
    case True
    then show ?thesis using entry by simp
  next
    case False
    obtain m1 r1 where r1: "from_plugin_classname import_plugins n e a s f ps = (m1, r1)"
      by (cases "from_plugin_classname import_plugins n e a s f ps")
    obtain m2 r2 where r2: "from_parser_builder import_plugins rest e a s f = (m2, r2)"
      by (cases "from_parser_builder import_plugins rest e a s f")
    show ?thesis
    proof (cases r1)
      case (Inl err)
      then show ?thesis using entry False r1 by (cases out) auto
    next
      case (Inr slot)
      show ?thesis
      proof (cases r2)
        case (Inl err)
        with Cons.IH r2 have "\<And>out. \<not> (list_all (\<lambda>(n, ps). \<not> list_ex (\<lambda>k. k \<in> keys ps) parser_builder_keywords) rest \<and>
           map (\<lambda>(n, ps). snd (from_plugin_classname import_plugins n e a s f ps)) rest = map Inr out)"
          by simp
        then show ?thesis using entry False r1 r2 Inr Inl by (cases out) auto
      next
        case rest_ok: (Inr outs)
        with Cons.IH r2 have "\<And>out. outs = out \<longleftrightarrow> (list_all (\<lambda>(n, ps). \<not> list_ex (\<lambda>k. k \<in> keys ps) parser_builder_keywords) rest \<and>
           map (\<lambda>(n, ps). snd (from_plugin_classname import_plugins n e a s f ps)) rest = map Inr out)"
          by simp
        then show ?thesis using entry False r1 r2 Inr rest_ok by (cases out) auto
      qed
    qed
  qed
qed

subsection \<open>The resolved configuration\<close>

lemma distinct_snd_inj:
  "distinct (map snd d) \<Longrightarrow> (a, r) \<in> set d \<Longrightarrow> (b, r) \<in> set d \<Longrightarrow> a = b"
  by (induction d) (auto simp: rev_image_eqI)

lemma bpd_is_dict: "baseline_plugins_dict bl = Inr bpd \<Longrightarrow> is_dict bpd"
  unfolding baseline_plugins_dict_def by (erule bpd_from_is_dict) (simp add: is_dict_def)

lemma bpd_values:
  "baseline_plugins_dict bl = Inr bpd \<Longrightarrow> (n, ps) \<in> set bpd \<Longrightarrow>
   \<exists>plugin \<in> set bl. ps = AList.delete ''name'' plugin"
  unfolding baseline_plugins_dict_def by (drule (1) bpd_from_values) simp

lemma bpd_values_is_dict:
  "baseline_plugins_dict bl = Inr bpd \<Longrightarrow> \<forall>plugin \<in> set bl. is_dict plugin \<Longrightarrow>
   (n, ps) \<in> set bpd \<Longrightarrow> is_dict ps"
  by (drule (1) bpd_values) (auto simp: is_dict_delete)

lemma resolve_use_all:
  "use_all_plugins args \<Longrightarrow> baseline_plugins_dict bl = Inr bpd \<Longrightarrow>
   resolve_plugins bl args h =
     Inr (fst (assign_baseline_params (plugins args)
                 (get_prioritized_parameters bpd (is_using_default_value args) True) h),
          snd (assign_baseline_params (plugins args)
                 (get_prioritized_parameters bpd (is_using_default_value args) True) h),
          deref (fst (assign_baseline_params (plugins args)
                 (get_prioritized_parameters bpd (is_using_default_value args) True) h))
            (plugins args))"
  by (simp add: resolve_plugins_def case_prod_beta Let_def)

lemma resolve_baseline_seeded:
  "\<not> use_all_plugins args \<Longrightarrow> baseline_plugins_dict bl = Inr bpd \<Longrightarrow>
   resolve_plugins bl args h =
     Inr (h,
          snd (assign_input_params
                 (filter (\<lambda>(plugin_name, plugin_params).
                            plugin_name \<notin> set (disabled_plugins args)) bpd)
                 (get_prioritized_parameters (deref h (plugins args))
                    (is_using_default_value args) False)),
          fst (assign_input_params
                 (filter (\<lambda>(plugin_name, plugin_params).
                            plugin_name \<notin> set (disabled_plugins args)) bpd)
                 (get_prioritized_parameters (deref h (plugins args))
                    (is_using_default_value args) False)))"
  by (simp add: resolve_plugins_def case_prod_beta Let_def)

lemma use_all_param:
  assumes bpd: "baseline_plugins_dict bl = Inr bpd"
    and dicts: "\<forall>plugin \<in> set bl. is_dict plugin"
    and inj: "distinct (map snd pd)"
    and r: "map_of pd P = Some r"
    and bp: "map_of bpd P = Some bparams"
  shows "map_of (fst (assign_baseline_params pd (get_prioritized_parameters bpd flags True) h) r) p =
        (if dict_get flags p False
         then (case map_of bparams p of Some v \<Rightarrow> Some v | None \<Rightarrow> map_of (h r) p)
         else map_of (h r) p)"
proof -
  let ?ts = "get_prioritized_parameters bpd flags True"
  have Pr: "(P, r) \<in> set pd" using r by (rule map_of_SomeD)
  have Pb: "(P, bparams) \<in> set bpd" using bp by (rule map_of_SomeD)
  have bd: "is_dict bparams" using bpd dicts Pb by (rule bpd_values_is_dict)
  have hit: "v' = v" if "(n, p, v') \<in> set ?ts" "map_of pd n = Some r" "map_of bparams p = Some v"
    for n v' v
  proof -
    from that(1) obtain ps where ps: "(n, ps) \<in> set bpd" "(p, v') \<in> set ps"
      by (auto simp: gpp_set)
    have "(n, r) \<in> set pd" using that(2) by (rule map_of_SomeD)
    from distinct_snd_inj [OF inj this Pr] have "n = P" .
    with ps(1) bp bpd_is_dict [OF bpd] have "ps = bparams" by (simp add: is_dict_map_of)
    with ps(2) bd that(3) show ?thesis by (simp add: is_dict_map_of)
  qed
  show ?thesis
  proof (cases "dict_get flags p False")
    case False
    then have "\<forall>n v. (n, p, v) \<in> set ?ts \<longrightarrow> map_of pd n \<noteq> Some r" by (simp add: gpp_set)
    from assign_baseline_frame [where h = h, OF this] False show ?thesis by simp
  next
    case True
    show ?thesis
    proof (cases "map_of bparams p")
      case None
      have "\<forall>n v. (n, p, v) \<in> set ?ts \<longrightarrow> map_of pd n \<noteq> Some r"
      proof (intro allI impI notI)
        fix n v assume a: "(n, p, v) \<in> set ?ts" "map_of pd n = Some r"
        from a(1) obtain ps where ps: "(n, ps) \<in> set bpd" "(p, v) \<in> set ps"
          by (auto simp: gpp_set)
        have "(n, r) \<in> set pd" using a(2) by (rule map_of_SomeD)
        from distinct_snd_inj [OF inj this Pr] have "n = P" .
        with ps(1) bp bpd_is_dict [OF bpd] have "ps = bparams" by (simp add: is_dict_map_of)
        with ps(2) bd None show False by (simp add: is_dict_map_of)
      qed
      from assign_baseline_frame [where h = h, OF this] True None show ?thesis by simp
    next
      case (Some v)
      have 1: "\<forall>n v'. (n, p, v') \<in> set ?ts \<longrightarrow> map_of pd n = Some r \<longrightarrow> v' = v"
        using hit Some by blast
      have "(p, v) \<in> set bparams" using Some by (rule map_of_SomeD)
      with Pb True have "(P, p, v) \<in> set ?ts" by (auto simp: gpp_set)
      with r have 2: "map_of (h r) p = Some v \<or> (\<exists>n. (n, p, v) \<in> set ?ts \<and> map_of pd n = Some r)"
        by blast
      from assign_baseline_write [where h = h, OF 1 2] True Some show ?thesis by simp
    qed
  qed
qed

lemma example_bpd:
  "baseline_plugins_dict example_baseline
     = Inr [(Str ''Base64HighEntropyString'', [(''base64_limit'', Num 3)])]"
  by (simp add: baseline_plugins_dict_def example_baseline_def remove_key_def)

lemma is_dict_deref: "is_dict (deref h d) = is_dict d"
  by (simp add: is_dict_def map_fst_deref)

lemma set_deref: "(n, ps) \<in> set (deref h d) \<longleftrightarrow> (\<exists>r. (n, r) \<in> set d \<and> ps = h r)"
  by (auto simp: deref_def)

lemma baseline_seeded_param:
  assumes bp: "map_of bpd P = Some bparams"
    and en: "P \<notin> set disabled"
    and pd: "is_dict pd"
    and inner: "\<forall>(n, r) \<in> set pd. is_dict (h r)"
  shows "param_of (fst (assign_input_params
             (filter (\<lambda>(plugin_name, plugin_params). plugin_name \<notin> set disabled) bpd)
             (get_prioritized_parameters (deref h pd) flags False))) P p =
        (if dict_get flags p False then map_of bparams p
         else (case param_of (deref h pd) P p of Some v \<Rightarrow> Some v | None \<Rightarrow> map_of bparams p))"
proof -
  let ?seed = "filter (\<lambda>(plugin_name, plugin_params). plugin_name \<notin> set disabled) bpd"
  let ?ts = "get_prioritized_parameters (deref h pd) flags False"
  have seedP: "map_of ?seed P = Some bparams" using bp en by (simp add: map_of_filter_keys)
  then have seedp: "param_of ?seed P p = map_of bparams p" by (simp add: param_of_def)
  have trip: "(P, p, v) \<in> set ?ts \<longleftrightarrow>
      \<not> dict_get flags p False \<and> param_of (deref h pd) P p = Some v" for v
  proof
    assume "(P, p, v) \<in> set ?ts"
    then obtain r where r: "(P, r) \<in> set pd" "(p, v) \<in> set (h r)" "\<not> dict_get flags p False"
      by (auto simp: gpp_set set_deref)
    from r(1) pd have "map_of pd P = Some r" by (simp add: is_dict_map_of)
    moreover from r(1) inner have "is_dict (h r)" by auto
    with r(2) have "map_of (h r) p = Some v" by (simp add: is_dict_map_of)
    ultimately show "\<not> dict_get flags p False \<and> param_of (deref h pd) P p = Some v"
      using r(3) by (simp add: param_of_def map_of_deref)
  next
    assume a: "\<not> dict_get flags p False \<and> param_of (deref h pd) P p = Some v"
    then obtain r where r: "map_of pd P = Some r" "map_of (h r) p = Some v"
      by (auto simp: param_of_def map_of_deref split: option.splits)
    from r have "(P, r) \<in> set pd" "(p, v) \<in> set (h r)" by (auto dest: map_of_SomeD)
    with a show "(P, p, v) \<in> set ?ts" by (auto simp: gpp_set set_deref)
  qed
  show ?thesis
  proof (cases "\<not> dict_get flags p False \<and> param_of (deref h pd) P p \<noteq> None")
    case True
    then obtain v where v: "param_of (deref h pd) P p = Some v" by auto
    have 1: "\<forall>v'. (P, p, v') \<in> set ?ts \<longrightarrow> v' = v" using v by (simp add: trip)
    have 2: "map_of ?seed P \<noteq> None" using seedP by simp
    have 3: "param_of ?seed P p = Some v \<or> (P, p, v) \<in> set ?ts" using True v by (simp add: trip)
    from assign_input_write [OF 1 2 3] True v show ?thesis by simp
  next
    case False
    then have "\<forall>v. (P, p, v) \<notin> set ?ts" by (auto simp: trip)
    from assign_input_frame [OF this, of ?seed] seedp False show ?thesis
      by (auto split: option.splits)
  qed
qed

lemma map_fst_filter_keys:
  "map fst (filter (\<lambda>(k, v). P k) d) = filter P (map fst d)"
  by (induction d) auto

lemma baseline_seeded_keys:
  "map fst (fst (assign_input_params
             (filter (\<lambda>(plugin_name, plugin_params). plugin_name \<notin> set disabled) bpd) ts))
   = filter (\<lambda>n. n \<notin> set disabled) (map fst bpd)"
  by (simp add: assign_input_keys map_fst_filter_keys)

lemma merge_via_resolve:
  "resolve_plugins bl args h = Inr (h', msgs, resolved) \<Longrightarrow>
   merge_plugins_from_baseline import_plugins bl args automaton h =
     (h', msgs @ fst (from_parser_builder import_plugins resolved (exclude_lines args) automaton
                       (\<not> no_verify args) (plugin_filenames args)),
      snd (from_parser_builder import_plugins resolved (exclude_lines args) automaton
             (\<not> no_verify args) (plugin_filenames args)))"
  by (simp add: merge_plugins_from_baseline_def case_prod_beta)

lemma missing_flag: "p \<notin> keys flags \<Longrightarrow> dict_get flags p False = False"
  by (simp add: dict_get_def keys_map_of)

lemma use_all_explicit_param:
  "\<not> dict_get flags p False \<Longrightarrow>
   map_of (fst (assign_baseline_params pd (get_prioritized_parameters bpd flags True) h) r) p
     = map_of (h r) p"
  by (rule assign_baseline_frame) (simp add: gpp_set)

lemma example_bpd_two:
  "baseline_plugins_dict example_baseline_two
     = Inr [(Str ''Base64HighEntropyString'', [(''base64_limit'', Num 3)]),
            (Str ''HexHighEntropyString'', [(''hex_limit'', Num 2)])]"
  by (simp add: baseline_plugins_dict_def example_baseline_two_def remove_key_def)

subsection \<open>The key \<^verbatim>\<open>'name'\<close>\<close>

lemma bpd_no_name:
  "baseline_plugins_dict bl = Inr bpd \<Longrightarrow> (n, ps) \<in> set bpd \<Longrightarrow> ''name'' \<notin> keys ps"
  by (drule (1) bpd_values) (auto simp: keys_delete)

lemma find_plugin_init_vars_no_name:
  "find_plugin_init_vars classname settings = Inr (Some vars) \<Longrightarrow> ''name'' \<notin> keys vars"
  by (induction settings) (auto simp: keys_delete split: option.splits if_splits)

lemma use_all_no_name:
  assumes bpd: "baseline_plugins_dict bl = Inr bpd"
    and cmd: "''name'' \<notin> keys (h r)"
  shows "''name'' \<notin> keys (fst (assign_baseline_params pd
            (get_prioritized_parameters bpd flags True) h) r)"
proof -
  have "\<forall>n v. (n, ''name'', v) \<in> set (get_prioritized_parameters bpd flags True) \<longrightarrow>
          map_of pd n \<noteq> Some r"
  proof (intro allI impI)
    fix n v assume "(n, ''name'', v) \<in> set (get_prioritized_parameters bpd flags True)"
    then obtain ps where "(n, ps) \<in> set bpd" "(''name'', v) \<in> set ps" by (auto simp: gpp_set)
    with bpd_no_name [OF bpd] have False by (force simp: keys_def)
    then show "map_of pd n \<noteq> Some r" ..
  qed
  from assign_baseline_frame [where h = h, OF this] cmd show ?thesis
    by (simp add: keys_map_of)
qed

lemma baseline_seeded_no_name:
  assumes bpd: "baseline_plugins_dict bl = Inr bpd"
    and cmd: "\<forall>(n, r) \<in> set pd. ''name'' \<notin> keys (h r)"
    and mem: "(n, ps) \<in> set (fst (assign_input_params
                 (filter (\<lambda>(plugin_name, plugin_params). plugin_name \<notin> set disabled) bpd)
                 (get_prioritized_parameters (deref h pd) flags False)))"
  shows "''name'' \<notin> keys ps"
proof
  let ?seed = "filter (\<lambda>(plugin_name, plugin_params). plugin_name \<notin> set disabled) bpd"
  let ?ts = "get_prioritized_parameters (deref h pd) flags False"
  let ?resolved = "fst (assign_input_params ?seed ?ts)"
  assume name: "''name'' \<in> keys ps"
  have "is_dict bpd" using bpd by (rule bpd_is_dict)
  then have "is_dict ?resolved"
    by (simp add: is_dict_def baseline_seeded_keys)
  with mem have "map_of ?resolved n = Some ps" by (simp add: is_dict_map_of)
  with name have res: "param_of ?resolved n ''name'' \<noteq> None"
    by (simp add: param_of_def keys_map_of)
  have "\<forall>v. (n, ''name'', v) \<notin> set ?ts"
  proof (intro allI notI)
    fix v assume "(n, ''name'', v) \<in> set ?ts"
    then obtain r where "(n, r) \<in> set pd" "(''name'', v) \<in> set (h r)"
      by (auto simp: gpp_set set_deref)
    with cmd show False by (force simp: keys_def)
  qed
  from assign_input_frame [OF this, of ?seed] res
  have "param_of ?seed n ''name'' \<noteq> None" by simp
  then obtain ps0 where ps0: "map_of ?seed n = Some ps0" "''name'' \<in> keys ps0"
    by (auto simp: param_of_def keys_map_of split: option.splits)
  from ps0(1) have "(n, ps0) \<in> set bpd" by (auto dest: map_of_SomeD)
  with bpd_no_name [OF bpd] ps0(2) show False by blast
qed

subsection \<open>Instantiating a whole configuration\<close>

lemma from_plugin_classname_unknown:
  "import_plugins filenames n = None \<Longrightarrow>
   from_plugin_classname import_plugins n e a s filenames kwargs
     = ([Stderr_no_such_plugin n], Inr None)"
  by (simp add: from_plugin_classname_def)

lemma map_Inr_choice:
  "\<forall>x \<in> set xs. \<exists>y. f x = Inr y \<Longrightarrow> \<exists>ys. map f xs = map Inr ys"
proof (induction xs)
  case Nil
  then show ?case by simp
next
  case (Cons x xs)
  then obtain y ys where "f x = Inr y" "map f xs = map Inr ys" by auto
  then have "map f (x # xs) = map Inr (y # ys)" by simp
  then show ?case by blast
qed

lemma from_parser_builder_msgs:
  "snd (from_parser_builder import_plugins d e a s f) = Inr out \<Longrightarrow>
   fst (from_parser_builder import_plugins d e a s f)
     = concat (map (\<lambda>(n, ps). fst (from_plugin_classname import_plugins n e a s f ps)) d)"
proof (induction d arbitrary: out)
  case Nil
  then show ?case by simp
next
  case (Cons entry rest)
  obtain n ps where entry: "entry = (n, ps)" by (cases entry)
  obtain m1 r1 where r1: "from_plugin_classname import_plugins n e a s f ps = (m1, r1)"
    by (cases "from_plugin_classname import_plugins n e a s f ps")
  obtain m2 r2 where r2: "from_parser_builder import_plugins rest e a s f = (m2, r2)"
    by (cases "from_parser_builder import_plugins rest e a s f")
  from Cons.prems entry r1 r2 obtain slot outs where ok: "r1 = Inr slot" "r2 = Inr outs"
    by (auto split: if_splits sum.splits)
  from Cons.IH [of outs] r2 ok have "m2 = concat (map (\<lambda>(n, ps).
      fst (from_plugin_classname import_plugins n e a s f ps)) rest)" by simp
  with Cons.prems entry r1 r2 ok show ?case by (auto split: if_splits)
qed

lemma resolve_total:
  "(\<exists>h' msgs resolved. resolve_plugins bl args h = Inr (h', msgs, resolved)) \<longleftrightarrow>
   (\<forall>plugin \<in> set bl. ''name'' \<in> keys plugin)"
proof -
  have "(\<exists>h' msgs resolved. resolve_plugins bl args h = Inr (h', msgs, resolved)) \<longleftrightarrow>
      (\<exists>bpd. baseline_plugins_dict bl = Inr bpd)"
    by (auto simp: resolve_plugins_def Let_def split: sum.splits prod.splits)
  then show ?thesis by (simp add: baseline_plugins_dict_def bpd_total)
qed

subsection \<open>No explicit parameter\<close>

lemma no_explicit_parameters:
  "\<forall>(n, ps) \<in> set d. \<forall>p \<in> keys ps. dict_get flags p False \<Longrightarrow>
   get_prioritized_parameters d flags False = []"
proof -
  assume a: "\<forall>(n, ps) \<in> set d. \<forall>p \<in> keys ps. dict_get flags p False"
  have "set (get_prioritized_parameters d flags False) = {}"
  proof (rule equals0I)
    fix t assume t: "t \<in> set (get_prioritized_parameters d flags False)"
    obtain n p v where "t = (n, p, v)" by (cases t)
    with t obtain ps where "(n, ps) \<in> set d" "(p, v) \<in> set ps" "\<not> dict_get flags p False"
      by (auto simp: gpp_set)
    with a show False by (force simp: keys_def)
  qed
  then show ?thesis by simp
qed

lemma filter_nothing_disabled:
  "filter (\<lambda>(plugin_name, plugin_params). plugin_name \<notin> set []) d = d"
  by (induction d) auto

section \<open>The claims\<close>

subsection \<open>C4: a constructor that rejects its parameters\<close>

text \<open>
  C4. When the plugin name is in the catalog and its constructor raises \<^verbatim>\<open>TypeError\<close> on the
  keyword parameters it is given, \<^verbatim>\<open>from_plugin_classname\<close> logs the warning
  \<^verbatim>\<open>'Unable to initialize plugin!'\<close> and raises that \<^verbatim>\<open>TypeError\<close> to its caller; it does not
  return \<^verbatim>\<open>None\<close>.
\<close>

theorem construction_failure_propagates:
  assumes "import_plugins filenames plugin_classname = Some klass"
    and "klass exclude_lines_regex automaton should_verify_secrets kwargs = Inl TypeError"
  shows "from_plugin_classname import_plugins plugin_classname exclude_lines_regex automaton
           should_verify_secrets filenames kwargs
         = ([Warning_unable_to_initialize], Inl TypeError)"
  using assms by (simp add: from_plugin_classname_def)

text \<open>
  The keyword detector of the example catalog is handed \<^verbatim>\<open>base64_limit=4.5\<close>, which it does
  not accept.
\<close>

theorem construction_failure_propagates_witness:
  "example_catalog None (Str ''KeywordDetector'') = Some (example_klass [''keyword_exclude''])
   \<and> example_klass [''keyword_exclude''] None None False [(''base64_limit'', Num 4.5)]
       = Inl TypeError
   \<and> from_plugin_classname example_catalog (Str ''KeywordDetector'') None None False None
        [(''base64_limit'', Num 4.5)]
       = ([Warning_unable_to_initialize], Inl TypeError)"
proof -
  have cat: "example_catalog None (Str ''KeywordDetector'')
      = Some (example_klass [''keyword_exclude''])"
    by (simp add: example_catalog_def)
  have rej: "example_klass [''keyword_exclude''] None None False [(''base64_limit'', Num 4.5)]
      = Inl TypeError"
    by (simp add: example_klass_def)
  show ?thesis
    using construction_failure_propagates [of example_catalog None "Str ''KeywordDetector''"
        "example_klass [''keyword_exclude'']" None None False "[(''base64_limit'', Num 4.5)]"]
      cat rej by simp
qed

subsection \<open>C7: one result slot per entry\<close>

text \<open>
  C7. \<^verbatim>\<open>from_parser_builder\<close> returns a tuple exactly when no entry of the configuration makes
  the instantiation raise, and the tuple then has one slot per entry of the dictionary, in
  the dictionary's order: slot \<open>i\<close> is what \<^verbatim>\<open>from_plugin_classname\<close> returned for entry \<open>i\<close>,
  an instance or \<^verbatim>\<open>None\<close>. No \<^verbatim>\<open>None\<close> is dropped.
\<close>

theorem slot_preservation:
  "snd (from_parser_builder import_plugins plugins_dict exclude_lines_regex automaton
          should_verify_secrets filenames) = Inr out \<longleftrightarrow>
   length out = length plugins_dict \<and>
   (\<forall>i < length plugins_dict.
      \<not> list_ex (\<lambda>k. k \<in> keys (snd (plugins_dict ! i))) parser_builder_keywords \<and>
      snd (from_plugin_classname import_plugins (fst (plugins_dict ! i)) exclude_lines_regex
             automaton should_verify_secrets filenames (snd (plugins_dict ! i)))
        = Inr (out ! i))"
  unfolding from_parser_builder_map
  by (auto simp: list_all_length list_eq_iff_nth_eq case_prod_beta)

text \<open>
  The first entry of the example is unknown to the catalog: its slot is \<^verbatim>\<open>None\<close> and stays
  in the tuple.
\<close>

theorem slot_preservation_witness:
  "snd (from_parser_builder example_catalog example_resolved None None True None)
     = Inr [None, Some (True, [(''hex_limit'', Num 3)])]
   \<and> length [None, Some (True, [(''hex_limit'', Num 3 :: pyval)])] = length example_resolved"
proof -
  have "\<forall>i < length example_resolved.
      \<not> list_ex (\<lambda>k. k \<in> keys (snd (example_resolved ! i))) parser_builder_keywords \<and>
      snd (from_plugin_classname example_catalog (fst (example_resolved ! i)) None
             None True None (snd (example_resolved ! i)))
        = Inr ([None, Some (True, [(''hex_limit'', Num 3)])] ! i)"
    by (simp add: example_resolved_def All_less_Suc parser_builder_keywords_def keys_def
        from_plugin_classname_def example_catalog_def example_klass_def)
  then show ?thesis
    using slot_preservation [of example_catalog example_resolved None None True None
        "[None, Some (True, [(''hex_limit'', Num 3)])]"]
    by (simp add: example_resolved_def)
qed

subsection \<open>C1: precedence when every plugin is used\<close>

text \<open>
  C1. With \<^verbatim>\<open>use_all_plugins\<close> true, take a plugin that is in \<^verbatim>\<open>args.plugins\<close> (its parameters
  are the dictionary at reference \<open>r\<close>) and in the baseline dictionary, every baseline record
  being a dictionary and no two plugins of \<^verbatim>\<open>args.plugins\<close> sharing one parameter dictionary.
  The merge reaches its \<^verbatim>\<open>return\<close>, and in the configuration it hands on, a parameter whose
  flag reads "was default" has the baseline's value when the baseline has one (the
  command-line value otherwise), and a parameter whose flag reads "was explicit" has the
  command-line value whatever the baseline holds.
\<close>

theorem context_A_precedence:
  assumes "use_all_plugins args"
    and "baseline_plugins_dict baseline_plugins = Inr bpd"
    and "\<forall>plugin \<in> set baseline_plugins. is_dict plugin"
    and "distinct (map snd (plugins args))"
    and "map_of (plugins args) plugin_name = Some r"
    and "map_of bpd plugin_name = Some baseline_params"
  shows "\<exists>h' msgs resolved.
      resolve_plugins baseline_plugins args h = Inr (h', msgs, resolved) \<and>
      param_of resolved plugin_name param_name =
        (if dict_get (is_using_default_value args) param_name False
         then (case map_of baseline_params param_name of
                 Some v \<Rightarrow> Some v
               | None \<Rightarrow> map_of (h r) param_name)
         else map_of (h r) param_name)"
  using assms(5)
  by (simp add: resolve_use_all [OF assms(1,2)] param_of_def map_of_deref
      use_all_param [OF assms(2,3,4,5,6)])

text \<open>
  The example of the specification, with the flag of \<^verbatim>\<open>base64_limit\<close> reading "was default"
  (the baseline's 3.0 is resolved) and reading "was explicit" (the command line's 4.5 is).
\<close>

theorem context_A_precedence_witness:
  "(\<exists>h' msgs resolved.
      resolve_plugins example_baseline (example_args True True) example_heap
        = Inr (h', msgs, resolved) \<and>
      param_of resolved (Str ''Base64HighEntropyString'') ''base64_limit'' = Some (Num 3.0))
   \<and> (\<exists>h' msgs resolved.
      resolve_plugins example_baseline (example_args False True) example_heap
        = Inr (h', msgs, resolved) \<and>
      param_of resolved (Str ''Base64HighEntropyString'') ''base64_limit'' = Some (Num 4.5))"
proof -
  have dicts: "\<forall>plugin \<in> set example_baseline. is_dict plugin"
    by (simp add: example_baseline_def is_dict_def)
  have inj: "distinct (map snd (plugins (example_args b True)))" for b
    by (simp add: example_args_def)
  have r: "map_of (plugins (example_args b True)) (Str ''Base64HighEntropyString'') = Some 0"
    for b by (simp add: example_args_def)
  have bp: "map_of [(Str ''Base64HighEntropyString'', [(''base64_limit'', Num 3)])]
              (Str ''Base64HighEntropyString'') = Some [(''base64_limit'', Num 3)]"
    by simp
  have all: "use_all_plugins (example_args b True)" for b by (simp add: example_args_def)
  show ?thesis
    using context_A_precedence [OF all [of True] example_bpd dicts inj [of True] r [of True] bp,
        of example_heap "''base64_limit''"]
      context_A_precedence [OF all [of False] example_bpd dicts inj [of False] r [of False] bp,
        of example_heap "''base64_limit''"]
    by (simp add: example_args_def example_heap_def dict_get_def)
qed

subsection \<open>C2: precedence when the baseline's plugins are used\<close>

text \<open>
  C2. With \<^verbatim>\<open>use_all_plugins\<close> false, take a plugin of the baseline dictionary that is not
  disabled, the dictionaries of \<^verbatim>\<open>args.plugins\<close> holding each key once. The merge reaches its
  \<^verbatim>\<open>return\<close> and leaves the store as it was; the plugin is in the configuration handed on;
  a parameter whose flag reads "was explicit" has the value the command line gives it for
  this plugin, and every other parameter (flag "was default", or no command-line value for
  this plugin) has the baseline's value, or none when the baseline has none.
\<close>

theorem context_B_precedence:
  assumes "\<not> use_all_plugins args"
    and "baseline_plugins_dict baseline_plugins = Inr bpd"
    and "map_of bpd plugin_name = Some baseline_params"
    and "plugin_name \<notin> set (disabled_plugins args)"
    and "is_dict (plugins args)"
    and "\<forall>(n, r) \<in> set (plugins args). is_dict (h r)"
  shows "\<exists>msgs resolved.
      resolve_plugins baseline_plugins args h = Inr (h, msgs, resolved) \<and>
      plugin_name \<in> keys resolved \<and>
      param_of resolved plugin_name param_name =
        (if dict_get (is_using_default_value args) param_name False
         then map_of baseline_params param_name
         else (case param_of (deref h (plugins args)) plugin_name param_name of
                 Some v \<Rightarrow> Some v
               | None \<Rightarrow> map_of baseline_params param_name))"
proof -
  have "plugin_name \<in> set (map fst bpd)"
    using assms(3) by (metis map_of_eq_None_iff option.distinct(1) set_map)
  then show ?thesis
    using assms(4)
    by (simp add: resolve_baseline_seeded [OF assms(1,2)] keys_def baseline_seeded_keys
        baseline_seeded_param [OF assms(3,4,5,6)] flip: set_map)
qed

text \<open>
  The example of the specification without \<^verbatim>\<open>use_all_plugins\<close>: the baseline's 3.0 when the
  flag of \<^verbatim>\<open>base64_limit\<close> reads "was default", the command line's 4.5 when it reads "was
  explicit".
\<close>

theorem context_B_precedence_witness:
  "(\<exists>msgs resolved.
      resolve_plugins example_baseline (example_args True False) example_heap
        = Inr (example_heap, msgs, resolved) \<and>
      param_of resolved (Str ''Base64HighEntropyString'') ''base64_limit'' = Some (Num 3.0))
   \<and> (\<exists>msgs resolved.
      resolve_plugins example_baseline (example_args False False) example_heap
        = Inr (example_heap, msgs, resolved) \<and>
      param_of resolved (Str ''Base64HighEntropyString'') ''base64_limit'' = Some (Num 4.5))"
proof -
  have ctx: "\<not> use_all_plugins (example_args b False)" for b by (simp add: example_args_def)
  have bp: "map_of [(Str ''Base64HighEntropyString'', [(''base64_limit'', Num 3)])]
              (Str ''Base64HighEntropyString'') = Some [(''base64_limit'', Num 3)]"
    by simp
  have en: "Str ''Base64HighEntropyString'' \<notin> set (disabled_plugins (example_args b False))"
    for b by (simp add: example_args_def)
  have pd: "is_dict (plugins (example_args b False))" for b
    by (simp add: example_args_def is_dict_def)
  have inner: "\<forall>(n, r) \<in> set (plugins (example_args b False)). is_dict (example_heap r)" for b
    by (simp add: example_args_def example_heap_def is_dict_def)
  have cmd: "param_of (deref example_heap (plugins (example_args b False)))
      (Str ''Base64HighEntropyString'') ''base64_limit'' = Some (Num 4.5)" for b
    by (simp add: param_of_def deref_def example_args_def example_heap_def)
  have flag: "dict_get (is_using_default_value (example_args b False)) ''base64_limit'' False = b"
    for b by (simp add: dict_get_def example_args_def)
  show ?thesis
    using context_B_precedence [OF ctx [of True] example_bpd bp en [of True] pd [of True]
        inner [of True], of "''base64_limit''"]
      context_B_precedence [OF ctx [of False] example_bpd bp en [of False] pd [of False]
        inner [of False], of "''base64_limit''"]
    by (auto simp: cmd flag)
qed

subsection \<open>C5: disabled plugins are left out\<close>

text \<open>
  C5. With \<^verbatim>\<open>use_all_plugins\<close> false the merge reaches its \<^verbatim>\<open>return\<close> whenever the baseline
  dictionary can be built, and the configuration it hands to \<^verbatim>\<open>from_parser_builder\<close> holds
  exactly the baseline's plugin names that are not disabled, in the baseline's order. No
  disabled name is among them, whatever the baseline and the command-line parameters are.
\<close>

theorem disabled_plugins_excluded:
  assumes "\<not> use_all_plugins args"
    and "baseline_plugins_dict baseline_plugins = Inr bpd"
  shows "\<exists>msgs resolved.
      resolve_plugins baseline_plugins args h = Inr (h, msgs, resolved) \<and>
      merge_plugins_from_baseline import_plugins baseline_plugins args automaton h =
        (h, msgs @ fst (from_parser_builder import_plugins resolved (exclude_lines args)
                          automaton (\<not> no_verify args) (plugin_filenames args)),
         snd (from_parser_builder import_plugins resolved (exclude_lines args) automaton
                (\<not> no_verify args) (plugin_filenames args))) \<and>
      map fst resolved = filter (\<lambda>n. n \<notin> set (disabled_plugins args)) (map fst bpd) \<and>
      (\<forall>n \<in> set (disabled_plugins args). n \<notin> keys resolved)"
proof -
  let ?resolved = "fst (assign_input_params
      (filter (\<lambda>(plugin_name, plugin_params). plugin_name \<notin> set (disabled_plugins args)) bpd)
      (get_prioritized_parameters (deref h (plugins args)) (is_using_default_value args) False))"
  have ks: "map fst ?resolved = filter (\<lambda>n. n \<notin> set (disabled_plugins args)) (map fst bpd)"
    by (rule baseline_seeded_keys)
  have "keys ?resolved = set (map fst ?resolved)" by (simp add: keys_def)
  with ks have "\<forall>n \<in> set (disabled_plugins args). n \<notin> keys ?resolved" by simp
  with ks show ?thesis
    using resolve_baseline_seeded [OF assms, of h]
      merge_via_resolve [OF resolve_baseline_seeded [OF assms, of h], of import_plugins automaton]
    by blast
qed

text \<open>
  The baseline names two plugins, the first is disabled, and the command line gives that
  plugin an explicit \<^verbatim>\<open>base64_limit\<close>: only the second plugin is resolved.
\<close>

theorem disabled_plugins_excluded_witness:
  "\<exists>msgs resolved.
      resolve_plugins example_baseline_two example_args_disabled example_heap
        = Inr (example_heap, msgs, resolved) \<and>
      map fst resolved = [Str ''HexHighEntropyString''] \<and>
      Str ''Base64HighEntropyString'' \<notin> keys resolved"
proof -
  have ctx: "\<not> use_all_plugins example_args_disabled"
    by (simp add: example_args_disabled_def example_args_def)
  show ?thesis
    using disabled_plugins_excluded [OF ctx example_bpd_two, of example_heap example_catalog None]
    by (auto simp: example_args_disabled_def example_args_def)
qed

subsection \<open>C10: a parameter without a flag counts as explicit\<close>

text \<open>
  C10. Let a parameter name be no key of \<^verbatim>\<open>args.is_using_default_value\<close>. With
  \<^verbatim>\<open>use_all_plugins\<close> true, every plugin of \<^verbatim>\<open>args.plugins\<close> keeps, for that parameter, exactly
  what the command line holds: no baseline value replaces it. With \<^verbatim>\<open>use_all_plugins\<close> false
  (the dictionaries of \<^verbatim>\<open>args.plugins\<close> holding each key once), every resolved plugin for which
  the command line holds a value of that parameter has this value, whatever the baseline
  holds.
\<close>

theorem missing_flag_treated_as_explicit:
  assumes "param_name \<notin> keys (is_using_default_value args)"
    and "baseline_plugins_dict baseline_plugins = Inr bpd"
  shows "\<exists>h' msgs resolved.
      resolve_plugins baseline_plugins args h = Inr (h', msgs, resolved) \<and>
      (use_all_plugins args \<longrightarrow>
         (\<forall>n r. map_of (plugins args) n = Some r \<longrightarrow>
                param_of resolved n param_name = map_of (h r) param_name)) \<and>
      (\<not> use_all_plugins args \<longrightarrow> is_dict (plugins args) \<longrightarrow>
         (\<forall>(n, r) \<in> set (plugins args). is_dict (h r)) \<longrightarrow>
         (\<forall>n v. n \<in> keys resolved \<longrightarrow>
                param_of (deref h (plugins args)) n param_name = Some v \<longrightarrow>
                param_of resolved n param_name = Some v))"
proof (cases "use_all_plugins args")
  case True
  have flag: "\<not> dict_get (is_using_default_value args) param_name False"
    using assms(1) by (simp add: missing_flag)
  show ?thesis
    using True
    by (simp add: resolve_use_all [OF True assms(2)] param_of_def map_of_deref
        use_all_explicit_param [OF flag])
next
  case False
  let ?seed = "filter (\<lambda>(plugin_name, plugin_params).
                  plugin_name \<notin> set (disabled_plugins args)) bpd"
  let ?ts = "get_prioritized_parameters (deref h (plugins args))
               (is_using_default_value args) False"
  let ?resolved = "fst (assign_input_params ?seed ?ts)"
  have flag: "\<not> dict_get (is_using_default_value args) param_name False"
    using assms(1) by (simp add: missing_flag)
  have "param_of ?resolved n param_name = Some v"
    if pd: "is_dict (plugins args)" and inner: "\<forall>(n, r) \<in> set (plugins args). is_dict (h r)"
      and n: "n \<in> keys ?resolved"
      and v: "param_of (deref h (plugins args)) n param_name = Some v" for n v
  proof -
    have "keys ?resolved = set (map fst ?resolved)" by (simp add: keys_def)
    with n have en: "n \<notin> set (disabled_plugins args)" and "n \<in> set (map fst bpd)"
      by (simp_all add: baseline_seeded_keys)
    then obtain bparams where bp: "map_of bpd n = Some bparams"
      by (metis map_of_eq_None_iff not_Some_eq set_map)
    from baseline_seeded_param [OF bp en pd inner, of "is_using_default_value args" param_name]
      flag v show ?thesis by simp
  qed
  then show ?thesis
    using False by (simp add: resolve_baseline_seeded [OF False assms(2)])
qed

text \<open>
  The example of the specification with no flag for \<^verbatim>\<open>base64_limit\<close>: in both contexts the
  command line's 4.5 is resolved, not the baseline's 3.0.
\<close>

theorem missing_flag_treated_as_explicit_witness:
  "(\<exists>h' msgs resolved.
      resolve_plugins example_baseline (example_args_no_flag True) example_heap
        = Inr (h', msgs, resolved) \<and>
      param_of resolved (Str ''Base64HighEntropyString'') ''base64_limit'' = Some (Num 4.5))
   \<and> (\<exists>h' msgs resolved.
      resolve_plugins example_baseline (example_args_no_flag False) example_heap
        = Inr (h', msgs, resolved) \<and>
      param_of resolved (Str ''Base64HighEntropyString'') ''base64_limit'' = Some (Num 4.5))"
proof -
  have nokey: "''base64_limit'' \<notin> keys (is_using_default_value (example_args_no_flag b))" for b
    by (simp add: example_args_no_flag_def keys_def)
  have A: "use_all_plugins (example_args_no_flag True)"
    "map_of (plugins (example_args_no_flag True)) (Str ''Base64HighEntropyString'') = Some 0"
    "map_of (example_heap 0) ''base64_limit'' = Some (Num 4.5)"
    by (simp_all add: example_args_no_flag_def example_args_def example_heap_def)
  have B: "\<not> use_all_plugins (example_args_no_flag False)"
    "is_dict (plugins (example_args_no_flag False))"
    "\<forall>(n, r) \<in> set (plugins (example_args_no_flag False)). is_dict (example_heap r)"
    "param_of (deref example_heap (plugins (example_args_no_flag False)))
       (Str ''Base64HighEntropyString'') ''base64_limit'' = Some (Num 4.5)"
    by (simp_all add: example_args_no_flag_def example_args_def example_heap_def is_dict_def
        param_of_def deref_def)
  have ev: "resolve_plugins example_baseline (example_args_no_flag False) example_heap
      = Inr (example_heap, [],
             [(Str ''Base64HighEntropyString'', [(''base64_limit'', Num 4.5)])])"
    by (simp add: resolve_plugins_def example_bpd example_args_no_flag_def example_args_def
        example_heap_def get_prioritized_parameters_def dict_get_def deref_def)
  from missing_flag_treated_as_explicit [OF nokey [of True] example_bpd, of example_heap]
  obtain h1 msgs1 resolved1 where
    r1: "resolve_plugins example_baseline (example_args_no_flag True) example_heap
           = Inr (h1, msgs1, resolved1)"
    and p1: "param_of resolved1 (Str ''Base64HighEntropyString'') ''base64_limit''
           = Some (Num 4.5)"
    using A by auto
  from missing_flag_treated_as_explicit [OF nokey [of False] example_bpd, of example_heap]
  obtain h2 msgs2 resolved2 where
    r2: "resolve_plugins example_baseline (example_args_no_flag False) example_heap
           = Inr (h2, msgs2, resolved2)"
    and i2: "\<forall>n v. n \<in> keys resolved2 \<longrightarrow>
           param_of (deref example_heap (plugins (example_args_no_flag False))) n
             ''base64_limit'' = Some v \<longrightarrow>
           param_of resolved2 n ''base64_limit'' = Some v"
    using B(1,2,3) by auto
  from ev r2 have "Str ''Base64HighEntropyString'' \<in> keys resolved2" by (simp add: keys_def)
  with i2 B(4) have p2: "param_of resolved2 (Str ''Base64HighEntropyString'') ''base64_limit''
           = Some (Num 4.5)"
    by blast
  from r1 p1 r2 p2 show ?thesis by blast
qed

subsection \<open>C9: the key \<^verbatim>\<open>'name'\<close> is removed\<close>

text \<open>
  C9. No parameter dictionary of \<^verbatim>\<open>baseline_plugins_dict\<close> has the key \<^verbatim>\<open>'name'\<close>. Hence no
  parameter dictionary of the configuration that the merge hands to \<^verbatim>\<open>from_parser_builder\<close>
  has it, in either context, unless the command line itself supplies a parameter of that
  name. The settings record that \<^verbatim>\<open>from_secret_type\<close> selects is handed on without its
  \<^verbatim>\<open>'name'\<close> too.
\<close>

theorem name_key_stripped:
  "(baseline_plugins_dict baseline_plugins = Inr bpd \<longrightarrow>
      (\<forall>(n, ps) \<in> set bpd. ''name'' \<notin> keys ps)) \<and>
   (resolve_plugins baseline_plugins args h = Inr (h', msgs, resolved) \<longrightarrow>
      (\<forall>(n, r) \<in> set (plugins args). ''name'' \<notin> keys (h r)) \<longrightarrow>
      (\<forall>(n, ps) \<in> set resolved. ''name'' \<notin> keys ps)) \<and>
   (find_plugin_init_vars classname settings = Inr (Some plugin_init_vars) \<longrightarrow>
      ''name'' \<notin> keys plugin_init_vars \<and>
      ''name'' \<notin> keys (AList.delete ''plugin_filenames'' plugin_init_vars))"
proof (intro conjI impI)
  assume "baseline_plugins_dict baseline_plugins = Inr bpd"
  from bpd_no_name [OF this] show "\<forall>(n, ps) \<in> set bpd. ''name'' \<notin> keys ps" by blast
next
  assume res: "resolve_plugins baseline_plugins args h = Inr (h', msgs, resolved)"
    and cmd: "\<forall>(n, r) \<in> set (plugins args). ''name'' \<notin> keys (h r)"
  from res obtain bpd' where bpd': "baseline_plugins_dict baseline_plugins = Inr bpd'"
    by (auto simp: resolve_plugins_def split: sum.splits)
  show "\<forall>(n, ps) \<in> set resolved. ''name'' \<notin> keys ps"
  proof (cases "use_all_plugins args")
    case True
    from res [unfolded resolve_use_all [OF True bpd']]
    have "resolved = deref (fst (assign_baseline_params (plugins args)
        (get_prioritized_parameters bpd' (is_using_default_value args) True) h)) (plugins args)"
      by auto
    then show ?thesis using cmd use_all_no_name [OF bpd'] by (fastforce simp: set_deref)
  next
    case False
    from res [unfolded resolve_baseline_seeded [OF False bpd']]
    have "resolved = fst (assign_input_params
        (filter (\<lambda>(plugin_name, plugin_params).
                   plugin_name \<notin> set (disabled_plugins args)) bpd')
        (get_prioritized_parameters (deref h (plugins args))
           (is_using_default_value args) False))"
      by auto
    then show ?thesis using baseline_seeded_no_name [OF bpd' cmd] by blast
  qed
next
  assume "find_plugin_init_vars classname settings = Inr (Some plugin_init_vars)"
  then show "''name'' \<notin> keys plugin_init_vars" by (rule find_plugin_init_vars_no_name)
  then show "''name'' \<notin> keys (AList.delete ''plugin_filenames'' plugin_init_vars)"
    by (simp add: keys_delete)
qed

text \<open>
  The baseline of the example: its dictionary, the configuration resolved from it and the
  settings selected for \<^verbatim>\<open>Base64HighEntropyString\<close> hold \<^verbatim>\<open>base64_limit\<close> only.
\<close>

theorem name_key_stripped_witness:
  "baseline_plugins_dict example_baseline
     = Inr [(Str ''Base64HighEntropyString'', [(''base64_limit'', Num 3)])]
   \<and> resolve_plugins example_baseline (example_args True False) example_heap
     = Inr (example_heap, [], [(Str ''Base64HighEntropyString'', [(''base64_limit'', Num 3)])])
   \<and> ''name'' \<notin> keys (example_heap 0) \<and> ''name'' \<notin> keys (example_heap 1)
   \<and> find_plugin_init_vars (Str ''Base64HighEntropyString'') example_baseline
     = Inr (Some [(''base64_limit'', Num 3)])
   \<and> ''name'' \<notin> keys [(''base64_limit'', Num 3 :: pyval)]
   \<and> ''name'' \<notin> keys (AList.delete ''plugin_filenames'' [(''base64_limit'', Num 3 :: pyval)])"
proof -
  have ev: "resolve_plugins example_baseline (example_args True False) example_heap
      = Inr (example_heap, [],
             [(Str ''Base64HighEntropyString'', [(''base64_limit'', Num 3)])])"
    by (simp add: resolve_plugins_def example_bpd example_args_def example_heap_def
        get_prioritized_parameters_def dict_get_def deref_def)
  have heap: "''name'' \<notin> keys (example_heap 0)" "''name'' \<notin> keys (example_heap 1)"
    by (simp_all add: example_heap_def keys_def)
  then have cmd: "\<forall>(n, r) \<in> set (plugins (example_args True False)).
      ''name'' \<notin> keys (example_heap r)"
    by (simp add: example_args_def)
  have fnd: "find_plugin_init_vars (Str ''Base64HighEntropyString'') example_baseline
      = Inr (Some [(''base64_limit'', Num 3)])"
    by (simp add: example_baseline_def)
  from name_key_stripped [of example_baseline
      "[(Str ''Base64HighEntropyString'', [(''base64_limit'', Num 3)])]"
      "example_args True False" example_heap example_heap "[]"
      "[(Str ''Base64HighEntropyString'', [(''base64_limit'', Num 3)])]"
      "Str ''Base64HighEntropyString''" example_baseline "[(''base64_limit'', Num 3)]"]
    example_bpd ev cmd fnd
  have "''name'' \<notin> keys [(''base64_limit'', Num 3 :: pyval)]"
    "''name'' \<notin> keys (AList.delete ''plugin_filenames'' [(''base64_limit'', Num 3 :: pyval)])"
    by simp_all
  with example_bpd ev heap fnd show ?thesis by simp
qed

subsection \<open>C3: a plugin that is not known\<close>

text \<open>
  C3. The merge reaches its \<^verbatim>\<open>return\<close> whenever every baseline record has a \<^verbatim>\<open>'name'\<close>
  (\<open>resolve_total\<close>). Let it do so, let no parameter of the resolved configuration be
  named like a keyword of the instantiator's own signature, and let every plugin of the
  configuration that the catalog knows be constructed without an exception. Then the merge
  does not raise, whichever plugins the catalog does not know: it returns one slot per
  resolved plugin, \<^verbatim>\<open>None\<close> with a warning on standard error for each plugin that is not in
  the catalog, and the instance for each plugin that is. With \<^verbatim>\<open>use_all_plugins\<close> true, a
  baseline plugin that is not in \<^verbatim>\<open>args.plugins\<close> is skipped with a logged warning, and the
  resolved plugins are those of \<^verbatim>\<open>args.plugins\<close>.
\<close>

theorem unknown_plugin_tolerance:
  assumes "baseline_plugins_dict baseline_plugins = Inr bpd"
    and "resolve_plugins baseline_plugins args h = Inr (h', msgs, resolved)"
    and "\<forall>(n, ps) \<in> set resolved. \<not> list_ex (\<lambda>k. k \<in> keys ps) parser_builder_keywords"
    and "\<forall>(n, ps) \<in> set resolved. import_plugins (plugin_filenames args) n \<noteq> None \<longrightarrow>
           (\<exists>inst. snd (from_plugin_classname import_plugins n (exclude_lines args) automaton
                          (\<not> no_verify args) (plugin_filenames args) ps) = Inr (Some inst))"
  shows "\<exists>msgs' out.
      merge_plugins_from_baseline import_plugins baseline_plugins args automaton h
        = (h', msgs @ msgs', Inr out) \<and>
      length out = length resolved \<and>
      (\<forall>i < length resolved.
         snd (from_plugin_classname import_plugins (fst (resolved ! i)) (exclude_lines args)
                automaton (\<not> no_verify args) (plugin_filenames args) (snd (resolved ! i)))
           = Inr (out ! i) \<and>
         (if import_plugins (plugin_filenames args) (fst (resolved ! i)) = None
          then out ! i = None \<and> Stderr_no_such_plugin (fst (resolved ! i)) \<in> set msgs'
          else out ! i \<noteq> None)) \<and>
      (use_all_plugins args \<longrightarrow>
         map fst resolved = map fst (plugins args) \<and>
         set msgs = {Warning_not_in_all_plugins n | n p v.
                       (n, p, v) \<in> set (get_prioritized_parameters bpd
                                          (is_using_default_value args) True) \<and>
                       n \<notin> keys (plugins args)})"
proof -
  let ?fpc = "\<lambda>(n, ps). from_plugin_classname import_plugins n (exclude_lines args) automaton
                          (\<not> no_verify args) (plugin_filenames args) ps"
  let ?fpb = "from_parser_builder import_plugins resolved (exclude_lines args) automaton
                 (\<not> no_verify args) (plugin_filenames args)"
  have each: "\<exists>y. snd (?fpc x) = Inr y" if "x \<in> set resolved" for x
  proof -
    obtain n ps where x: "x = (n, ps)" by (cases x)
    show ?thesis
    proof (cases "import_plugins (plugin_filenames args) n")
      case None
      then show ?thesis using x by (simp add: from_plugin_classname_unknown)
    next
      case (Some klass)
      with assms(4) that x show ?thesis by fastforce
    qed
  qed
  then have "\<exists>ys. map (\<lambda>x. snd (?fpc x)) resolved = map Inr ys"
    by (intro map_Inr_choice) blast
  then obtain out where out: "map (\<lambda>x. snd (?fpc x)) resolved = map Inr out" ..
  have len: "length out = length resolved" using out by (metis length_map)
  have nth: "snd (?fpc (resolved ! i)) = Inr (out ! i)" if "i < length resolved" for i
  proof -
    have "map (\<lambda>x. snd (?fpc x)) resolved ! i = map Inr out ! i" using out by simp
    then show ?thesis using that len by simp
  qed
  have "list_all (\<lambda>(n, ps). \<not> list_ex (\<lambda>k. k \<in> keys ps) parser_builder_keywords) resolved"
    using assms(3) by (simp add: list_all_iff)
  moreover have "map (\<lambda>(n, ps). snd (from_plugin_classname import_plugins n (exclude_lines args)
      automaton (\<not> no_verify args) (plugin_filenames args) ps)) resolved = map Inr out"
    using out by (simp add: case_prod_unfold)
  ultimately have ret: "snd ?fpb = Inr out" by (simp add: from_parser_builder_map)
  have msgs': "fst ?fpb = concat (map (\<lambda>x. fst (?fpc x)) resolved)"
    using from_parser_builder_msgs [OF ret] by (simp add: case_prod_unfold)
  have slots: "snd (from_plugin_classname import_plugins (fst (resolved ! i)) (exclude_lines args)
                automaton (\<not> no_verify args) (plugin_filenames args) (snd (resolved ! i)))
           = Inr (out ! i) \<and>
         (if import_plugins (plugin_filenames args) (fst (resolved ! i)) = None
          then out ! i = None \<and> Stderr_no_such_plugin (fst (resolved ! i)) \<in> set (fst ?fpb)
          else out ! i \<noteq> None)" if i: "i < length resolved" for i
  proof -
    obtain n ps where e: "resolved ! i = (n, ps)" by (cases "resolved ! i")
    have mem: "(n, ps) \<in> set resolved" using nth_mem [OF i] e by simp
    from nth [OF i] e have r: "snd (from_plugin_classname import_plugins n (exclude_lines args)
        automaton (\<not> no_verify args) (plugin_filenames args) ps) = Inr (out ! i)" by simp
    show ?thesis
    proof (cases "import_plugins (plugin_filenames args) n")
      case None
      then have u: "from_plugin_classname import_plugins n (exclude_lines args)
        automaton (\<not> no_verify args) (plugin_filenames args) ps
          = ([Stderr_no_such_plugin n], Inr None)" by (rule from_plugin_classname_unknown)
      with mem have "Stderr_no_such_plugin n \<in> set (fst ?fpb)"
        unfolding msgs' by force
      with r u None e show ?thesis by simp
    next
      case (Some klass)
      with assms(4) mem obtain inst where
        "snd (from_plugin_classname import_plugins n (exclude_lines args)
           automaton (\<not> no_verify args) (plugin_filenames args) ps) = Inr (Some inst)"
        by fastforce
      with r have "out ! i = Some inst" by simp
      with r Some e show ?thesis by simp
    qed
  qed
  have ctxA: "map fst resolved = map fst (plugins args) \<and>
         set msgs = {Warning_not_in_all_plugins n | n p v.
                       (n, p, v) \<in> set (get_prioritized_parameters bpd
                                          (is_using_default_value args) True) \<and>
                       n \<notin> keys (plugins args)}" if ua: "use_all_plugins args"
  proof -
    let ?ts = "get_prioritized_parameters bpd (is_using_default_value args) True"
    from assms(2) [unfolded resolve_use_all [OF ua assms(1)]]
    have m: "msgs = snd (assign_baseline_params (plugins args) ?ts h)"
      and rr: "resolved = deref (fst (assign_baseline_params (plugins args) ?ts h))
                 (plugins args)"
      by auto
    have "set msgs = {Warning_not_in_all_plugins n | n p v.
        (n, p, v) \<in> set ?ts \<and> map_of (plugins args) n = None}"
      unfolding m by (rule assign_baseline_msgs)
    also have "\<dots> = {Warning_not_in_all_plugins n | n p v.
        (n, p, v) \<in> set ?ts \<and> n \<notin> keys (plugins args)}"
      by (simp add: keys_map_of)
    finally show ?thesis using rr by (simp add: map_fst_deref)
  qed
  have "merge_plugins_from_baseline import_plugins baseline_plugins args automaton h
        = (h', msgs @ fst ?fpb, Inr out)"
    using merge_via_resolve [OF assms(2), of import_plugins automaton] ret by simp
  with len slots ctxA show ?thesis by blast
qed

text \<open>
  The baseline names \<^verbatim>\<open>RemovedPlugin\<close>, which the example catalog does not have, and a plugin
  that it has: the merge returns two slots, \<^verbatim>\<open>None\<close> with the warning for the first and an
  instance for the second.
\<close>

theorem unknown_plugin_tolerance_witness:
  "example_catalog None (Str ''RemovedPlugin'') = None \<and>
   (\<exists>msgs' out.
      merge_plugins_from_baseline example_catalog example_baseline_unknown
          (example_args True False) None example_heap
        = (example_heap, [] @ msgs', Inr out) \<and>
      length out = 2 \<and> out ! 0 = None \<and> out ! 1 \<noteq> None \<and>
      Stderr_no_such_plugin (Str ''RemovedPlugin'') \<in> set msgs')"
proof -
  let ?args = "example_args True False"
  have bpd: "baseline_plugins_dict example_baseline_unknown = Inr example_resolved"
    by (simp add: baseline_plugins_dict_def example_baseline_unknown_def remove_key_def
        example_resolved_def)
  have ev: "resolve_plugins example_baseline_unknown ?args example_heap
      = Inr (example_heap, [], example_resolved)"
    by (simp add: resolve_plugins_def bpd)
       (simp add: example_args_def example_heap_def example_resolved_def
        get_prioritized_parameters_def dict_get_def deref_def)
  have nokw: "\<forall>(n, ps) \<in> set example_resolved.
      \<not> list_ex (\<lambda>k. k \<in> keys ps) parser_builder_keywords"
    by (simp add: example_resolved_def parser_builder_keywords_def keys_def)
  have ok: "\<forall>(n, ps) \<in> set example_resolved.
      example_catalog (plugin_filenames ?args) n \<noteq> None \<longrightarrow>
      (\<exists>inst. snd (from_plugin_classname example_catalog n (exclude_lines ?args) None
                     (\<not> no_verify ?args) (plugin_filenames ?args) ps) = Inr (Some inst))"
    by (simp add: example_resolved_def example_catalog_def from_plugin_classname_def
        example_klass_def keys_def)
  have unknown: "example_catalog None (Str ''RemovedPlugin'') = None"
    by (simp add: example_catalog_def)
  have known: "example_catalog None (Str ''HexHighEntropyString'') \<noteq> None"
    by (simp add: example_catalog_def)
  have fn: "plugin_filenames ?args = None" by (simp add: example_args_def)
  have len: "length example_resolved = 2" "example_resolved ! 0 = (Str ''RemovedPlugin'', [(''limit'', Num 2)])"
    "example_resolved ! 1 = (Str ''HexHighEntropyString'', [(''hex_limit'', Num 3)])"
    by (simp_all add: example_resolved_def)
  note inst = unknown_plugin_tolerance [where import_plugins = example_catalog
      and automaton = None and baseline_plugins = example_baseline_unknown
      and bpd = example_resolved and args = "example_args True False" and h = example_heap
      and h' = example_heap and msgs = "[]" and resolved = example_resolved,
      OF bpd ev nokw ok]
  from inst have "\<exists>msgs' out.
      merge_plugins_from_baseline example_catalog example_baseline_unknown ?args None
          example_heap = (example_heap, [] @ msgs', Inr out) \<and>
      length out = 2 \<and> out ! 0 = None \<and> out ! 1 \<noteq> None \<and>
      Stderr_no_such_plugin (Str ''RemovedPlugin'') \<in> set msgs'"
  proof (elim exE conjE)
    fix msgs' out
    assume m: "merge_plugins_from_baseline example_catalog example_baseline_unknown ?args None
          example_heap = (example_heap, [] @ msgs', Inr out)"
      and l: "length out = length example_resolved"
      and sl: "\<forall>i < length example_resolved.
         snd (from_plugin_classname example_catalog (fst (example_resolved ! i))
                (exclude_lines ?args) None (\<not> no_verify ?args) (plugin_filenames ?args)
                (snd (example_resolved ! i))) = Inr (out ! i) \<and>
         (if example_catalog (plugin_filenames ?args) (fst (example_resolved ! i)) = None
          then out ! i = None \<and> Stderr_no_such_plugin (fst (example_resolved ! i)) \<in> set msgs'
          else out ! i \<noteq> None)"
    have s0: "if example_catalog (plugin_filenames ?args) (fst (example_resolved ! 0)) = None
          then out ! 0 = None \<and> Stderr_no_such_plugin (fst (example_resolved ! 0)) \<in> set msgs'
          else out ! 0 \<noteq> None"
    proof -
      have "0 < length example_resolved" by (simp add: len(1))
      from sl [rule_format, OF this] show ?thesis by (rule conjunct2)
    qed
    have s1: "if example_catalog (plugin_filenames ?args) (fst (example_resolved ! 1)) = None
          then out ! 1 = None \<and> Stderr_no_such_plugin (fst (example_resolved ! 1)) \<in> set msgs'
          else out ! 1 \<noteq> None"
    proof -
      have "1 < length example_resolved" by (simp add: len(1))
      from sl [rule_format, OF this] show ?thesis by (rule conjunct2)
    qed
    from s0 have a: "out ! 0 = None \<and> Stderr_no_such_plugin (Str ''RemovedPlugin'') \<in> set msgs'"
      by (simp add: len(2) fn unknown)
    from s1 [unfolded len(3) fst_conv fn] known have b: "out ! 1 \<noteq> None"
      by (simp del: One_nat_def)
    from l have c: "length out = 2" by (simp add: len(1))
    from m a b c show ?thesis by blast
  qed
  with unknown show ?thesis by simp
qed

subsection \<open>C6: merging a baseline with no command-line override\<close>

text \<open>
  C6, as stated, fails with \<^verbatim>\<open>use_all_plugins\<close> true. The baseline of the example is produced
  from the configuration that holds \<^verbatim>\<open>Base64HighEntropyString\<close> alone; the command line gives
  no explicit parameter (no triple is prioritized as explicit) and disables nothing; the
  merge resolves the two plugins of the command line.
\<close>

theorem round_trip_counterexample:
  "baseline_plugins_dict example_baseline
     = Inr [(Str ''Base64HighEntropyString'', [(''base64_limit'', Num 3.0)])]
   \<and> get_prioritized_parameters (deref example_heap (plugins (example_args True True)))
        (is_using_default_value (example_args True True)) False = []
   \<and> disabled_plugins (example_args True True) = []
   \<and> resolve_plugins example_baseline (example_args True True) example_heap
     = Inr (example_heap(0 := [(''base64_limit'', Num 3.0)]), [],
            [(Str ''Base64HighEntropyString'', [(''base64_limit'', Num 3.0)]),
             (Str ''HexHighEntropyString'', [(''hex_limit'', Num 3)])])"
  by (simp add: example_bpd resolve_plugins_def)
     (simp add: example_args_def example_heap_def get_prioritized_parameters_def
      dict_get_def deref_def)

text \<open>
  C6, amended. Let the baseline's dictionary be \<open>R\<close>, every parameter of the command line be
  flagged "was default" and nothing be disabled. With \<^verbatim>\<open>use_all_plugins\<close> false the merge
  resolves exactly \<open>R\<close> and leaves the store as it was. With \<^verbatim>\<open>use_all_plugins\<close> true it
  resolves the plugins of \<open>R\<close> in the same order with the same parameter values when,
  moreover, \<^verbatim>\<open>args.plugins\<close> names the plugins of \<open>R\<close>, each with its own parameter dictionary
  whose keys are among the plugin's parameters in \<open>R\<close>, and every parameter of \<open>R\<close> is
  flagged "was default".
\<close>

theorem round_trip:
  assumes decode: "baseline_plugins_dict baseline_plugins = Inr R"
    and noexp: "\<forall>(n, r) \<in> set (plugins args). \<forall>p \<in> keys (h r).
                  dict_get (is_using_default_value args) p False"
    and nodis: "disabled_plugins args = []"
    and ctxA: "use_all_plugins args \<longrightarrow>
         map fst (plugins args) = map fst R \<and> distinct (map snd (plugins args)) \<and>
         (\<forall>plugin \<in> set baseline_plugins. is_dict plugin) \<and>
         (\<forall>n r ps. map_of (plugins args) n = Some r \<longrightarrow> map_of R n = Some ps \<longrightarrow>
            keys (h r) \<subseteq> keys ps \<and>
            (\<forall>p \<in> keys ps. dict_get (is_using_default_value args) p False))"
  shows "\<exists>h' msgs resolved.
      resolve_plugins baseline_plugins args h = Inr (h', msgs, resolved) \<and>
      map fst resolved = map fst R \<and>
      (\<forall>n p. param_of resolved n p = param_of R n p) \<and>
      (\<not> use_all_plugins args \<longrightarrow> resolved = R \<and> h' = h)"
proof (cases "use_all_plugins args")
  case False
  have "\<forall>(n, ps) \<in> set (deref h (plugins args)). \<forall>p \<in> keys ps.
      dict_get (is_using_default_value args) p False"
    using noexp by (fastforce simp: set_deref)
  then have "get_prioritized_parameters (deref h (plugins args))
      (is_using_default_value args) False = []"
    by (rule no_explicit_parameters)
  then show ?thesis
    using False
    by (simp add: resolve_baseline_seeded [OF False decode] nodis filter_nothing_disabled)
next
  case True
  let ?ts = "get_prioritized_parameters R (is_using_default_value args) True"
  let ?h' = "fst (assign_baseline_params (plugins args) ?ts h)"
  from ctxA True have names: "map fst (plugins args) = map fst R"
    and inj: "distinct (map snd (plugins args))"
    and dicts: "\<forall>plugin \<in> set baseline_plugins. is_dict plugin"
    and shape: "\<And>n r ps. map_of (plugins args) n = Some r \<Longrightarrow> map_of R n = Some ps \<Longrightarrow>
            keys (h r) \<subseteq> keys ps \<and>
            (\<forall>p \<in> keys ps. dict_get (is_using_default_value args) p False)"
    by blast+
  have same: "param_of (deref ?h' (plugins args)) n p = param_of R n p" for n p
  proof (cases "map_of (plugins args) n")
    case None
    then have "n \<notin> set (map fst (plugins args))" by (simp add: map_of_eq_None_iff)
    then have "map_of R n = None" unfolding names by (simp add: map_of_eq_None_iff)
    with None show ?thesis by (simp add: param_of_def map_of_deref)
  next
    case (Some r)
    then have "n \<in> set (map fst (plugins args))"
      by (metis map_of_eq_None_iff option.distinct(1) set_map)
    then have "map_of R n \<noteq> None" unfolding names by (simp add: map_of_eq_None_iff)
    then obtain ps where ps: "map_of R n = Some ps" by blast
    note sh = shape [OF Some ps]
    have val: "map_of (?h' r) p =
        (if dict_get (is_using_default_value args) p False
         then (case map_of ps p of Some v \<Rightarrow> Some v | None \<Rightarrow> map_of (h r) p)
         else map_of (h r) p)"
      by (rule use_all_param [OF decode dicts inj Some ps])
    have "map_of (?h' r) p = map_of ps p"
    proof (cases "p \<in> keys ps")
      case True
      with sh have "dict_get (is_using_default_value args) p False" by blast
      moreover from True obtain v where "map_of ps p = Some v" by (auto simp: keys_map_of)
      ultimately show ?thesis using val by simp
    next
      case False
      with sh have "p \<notin> keys (h r)" by blast
      with False have "map_of ps p = None" "map_of (h r) p = None"
        by (simp_all add: keys_map_of)
      with val show ?thesis by simp
    qed
    with Some ps show ?thesis by (simp add: param_of_def map_of_deref)
  qed
  show ?thesis
    using True names same
    by (simp add: resolve_use_all [OF True decode] map_fst_deref)
qed

text \<open>
  Without \<^verbatim>\<open>use_all_plugins\<close>, the baseline of the example is resolved as it is. With it, the
  baseline with two plugins is resolved against the command line naming the same two
  plugins, whose default values differ from the baseline's.
\<close>

theorem round_trip_witness:
  "(\<exists>msgs. resolve_plugins example_baseline (example_args True False) example_heap
      = Inr (example_heap, msgs,
             [(Str ''Base64HighEntropyString'', [(''base64_limit'', Num 3.0)])]))
   \<and> (\<exists>h' msgs resolved.
      resolve_plugins example_baseline_two (example_args True True) example_heap
        = Inr (h', msgs, resolved) \<and>
      map fst resolved = [Str ''Base64HighEntropyString'', Str ''HexHighEntropyString''] \<and>
      param_of resolved (Str ''Base64HighEntropyString'') ''base64_limit'' = Some (Num 3.0) \<and>
      param_of resolved (Str ''HexHighEntropyString'') ''hex_limit'' = Some (Num 2))"
proof -
  have noexp: "\<forall>(n, r) \<in> set (plugins (example_args True b)). \<forall>p \<in> keys (example_heap r).
      dict_get (is_using_default_value (example_args True b)) p False" for b
    by (simp add: example_args_def example_heap_def keys_def dict_get_def)
  have nodis: "disabled_plugins (example_args True b) = []" for b
    by (simp add: example_args_def)
  have ctxB: "use_all_plugins (example_args True False) \<longrightarrow>
      map fst (plugins (example_args True False))
        = map fst [(Str ''Base64HighEntropyString'', [(''base64_limit'', Num 3 :: pyval)])] \<and>
      distinct (map snd (plugins (example_args True False))) \<and>
      (\<forall>plugin \<in> set example_baseline. is_dict plugin) \<and>
      (\<forall>n r ps. map_of (plugins (example_args True False)) n = Some r \<longrightarrow>
         map_of [(Str ''Base64HighEntropyString'', [(''base64_limit'', Num 3)])] n = Some ps \<longrightarrow>
         keys (example_heap r) \<subseteq> keys ps \<and>
         (\<forall>p \<in> keys ps. dict_get (is_using_default_value (example_args True False)) p False))"
    by (simp add: example_args_def)
  have ctxA: "use_all_plugins (example_args True True) \<longrightarrow>
      map fst (plugins (example_args True True))
        = map fst [(Str ''Base64HighEntropyString'', [(''base64_limit'', Num 3 :: pyval)]),
                   (Str ''HexHighEntropyString'', [(''hex_limit'', Num 2)])] \<and>
      distinct (map snd (plugins (example_args True True))) \<and>
      (\<forall>plugin \<in> set example_baseline_two. is_dict plugin) \<and>
      (\<forall>n r ps. map_of (plugins (example_args True True)) n = Some r \<longrightarrow>
         map_of [(Str ''Base64HighEntropyString'', [(''base64_limit'', Num 3)]),
                 (Str ''HexHighEntropyString'', [(''hex_limit'', Num 2)])] n = Some ps \<longrightarrow>
         keys (example_heap r) \<subseteq> keys ps \<and>
         (\<forall>p \<in> keys ps. dict_get (is_using_default_value (example_args True True)) p False))"
    by (auto simp: example_args_def example_baseline_two_def is_dict_def example_heap_def
        keys_def dict_get_def split: if_splits)
  have B: "\<not> use_all_plugins (example_args True False)" by (simp add: example_args_def)
  from round_trip [OF example_bpd noexp [of False] nodis [of False] ctxB] B
  have 1: "\<exists>msgs. resolve_plugins example_baseline (example_args True False) example_heap
      = Inr (example_heap, msgs,
             [(Str ''Base64HighEntropyString'', [(''base64_limit'', Num 3.0)])])"
    by auto
  from round_trip [OF example_bpd_two noexp [of True] nodis [of True] ctxA]
  obtain h' msgs resolved where
    r: "resolve_plugins example_baseline_two (example_args True True) example_heap
          = Inr (h', msgs, resolved)"
    and k: "map fst resolved = map fst [(Str ''Base64HighEntropyString'',
              [(''base64_limit'', Num 3 :: pyval)]),
              (Str ''HexHighEntropyString'', [(''hex_limit'', Num 2)])]"
    and v: "\<forall>n p. param_of resolved n p = param_of
              [(Str ''Base64HighEntropyString'', [(''base64_limit'', Num 3)]),
               (Str ''HexHighEntropyString'', [(''hex_limit'', Num 2)])] n p"
    by blast
  from v have "param_of resolved (Str ''Base64HighEntropyString'') ''base64_limit''
        = Some (Num 3.0)"
      "param_of resolved (Str ''HexHighEntropyString'') ''hex_limit'' = Some (Num 2)"
    by (simp_all add: param_of_def)
  with r k
  have 2: "\<exists>h' msgs resolved.
      resolve_plugins example_baseline_two (example_args True True) example_heap
        = Inr (h', msgs, resolved) \<and>
      map fst resolved = [Str ''Base64HighEntropyString'', Str ''HexHighEntropyString''] \<and>
      param_of resolved (Str ''Base64HighEntropyString'') ''base64_limit'' = Some (Num 3.0) \<and>
      param_of resolved (Str ''HexHighEntropyString'') ''hex_limit'' = Some (Num 2)"
    by auto
  from 1 2 show ?thesis ..
qed

subsection \<open>C8: what a merge leaves of its inputs\<close>

text \<open>
  C8 fails with \<^verbatim>\<open>use_all_plugins\<close> true. \<^verbatim>\<open>dict(args.plugins)\<close> copies the outer dictionary, so
  \<^verbatim>\<open>plugins_dict[plugin_name][param_name] = param_value\<close> writes into the inner dictionary
  that \<^verbatim>\<open>args.plugins\<close> holds. In the example of the specification with the flag reading
  "was default", the caller's \<^verbatim>\<open>args.plugins\<close> holds \<^verbatim>\<open>base64_limit = 4.5\<close> before the merge and
  3.0 after it. A second merge of the same arguments with an empty baseline then resolves
  3.0, where it resolves 4.5 when the first merge has not run. (The baseline records are
  copied by \<^verbatim>\<open>_remove_key\<close> before \<^verbatim>\<open>pop\<close>, and with \<^verbatim>\<open>use_all_plugins\<close> false the store is
  returned as it was: \<open>resolve_baseline_seeded\<close>.)
\<close>

theorem merge_overwrites_args_plugins:
  "deref example_heap (plugins (example_args True True))
     = [(Str ''Base64HighEntropyString'', [(''base64_limit'', Num 4.5)]),
        (Str ''HexHighEntropyString'', [(''hex_limit'', Num 3)])]
   \<and> deref (fst (merge_plugins_from_baseline example_catalog example_baseline
                   (example_args True True) None example_heap))
        (plugins (example_args True True))
     = [(Str ''Base64HighEntropyString'', [(''base64_limit'', Num 3.0)]),
        (Str ''HexHighEntropyString'', [(''hex_limit'', Num 3)])]
   \<and> resolve_plugins [] (example_args True True) example_heap
     = Inr (example_heap, [],
            [(Str ''Base64HighEntropyString'', [(''base64_limit'', Num 4.5)]),
             (Str ''HexHighEntropyString'', [(''hex_limit'', Num 3)])])
   \<and> resolve_plugins [] (example_args True True)
        (fst (merge_plugins_from_baseline example_catalog example_baseline
                (example_args True True) None example_heap))
     = Inr (fst (merge_plugins_from_baseline example_catalog example_baseline
                   (example_args True True) None example_heap), [],
            [(Str ''Base64HighEntropyString'', [(''base64_limit'', Num 3.0)]),
             (Str ''HexHighEntropyString'', [(''hex_limit'', Num 3)])])"
proof -
  have first: "resolve_plugins example_baseline (example_args True True) example_heap
      = Inr (example_heap(0 := [(''base64_limit'', Num 3.0)]), [],
            [(Str ''Base64HighEntropyString'', [(''base64_limit'', Num 3.0)]),
             (Str ''HexHighEntropyString'', [(''hex_limit'', Num 3)])])"
    by (simp add: example_bpd resolve_plugins_def)
       (simp add: example_args_def example_heap_def get_prioritized_parameters_def
        dict_get_def deref_def)
  have after: "fst (merge_plugins_from_baseline example_catalog example_baseline
      (example_args True True) None example_heap)
      = example_heap(0 := [(''base64_limit'', Num 3.0)])"
    by (simp add: merge_via_resolve [OF first])
  have empty: "baseline_plugins_dict [] = Inr ([] :: (pyval, pyval params) dict)"
    by (simp add: baseline_plugins_dict_def)
  show ?thesis
    unfolding after
    by (simp add: resolve_plugins_def empty)
       (simp add: example_args_def example_heap_def get_prioritized_parameters_def deref_def)
qed

end
